theory Spec2Isabelle
  imports Complex_Main
begin

section \<open>JavaScript numbers\<close>

text \<open>
  The calculator of \<^verbatim>\<open>src/app.js\<close> computes on JavaScript numbers. They are modelled
  as exact reals together with \<open>NaN\<close>: the value \<^verbatim>\<open>parseFloat\<close> gives for text that
  is not a number, and the value arithmetic gives on \<^verbatim>\<open>undefined\<close>. Overflow and
  the two infinities are not modelled. The rounding of binary64 is left out of the
  operations below, which are exact, and is added in the section on binary64 for the
  property that depends on it.
\<close>

datatype jsnum = NaN | Num real

instantiation jsnum :: "{plus, minus, times, inverse}"
begin

fun plus_jsnum :: "jsnum \<Rightarrow> jsnum \<Rightarrow> jsnum" where
  "plus_jsnum (Num a) (Num b) = Num (a + b)"
| "plus_jsnum _ _ = NaN"

fun minus_jsnum :: "jsnum \<Rightarrow> jsnum \<Rightarrow> jsnum" where
  "minus_jsnum (Num a) (Num b) = Num (a - b)"
| "minus_jsnum _ _ = NaN"

fun times_jsnum :: "jsnum \<Rightarrow> jsnum \<Rightarrow> jsnum" where
  "times_jsnum (Num a) (Num b) = Num (a * b)"
| "times_jsnum _ _ = NaN"

text \<open>
  A quotient by zero is an infinity (or \<open>NaN\<close>) in JavaScript. The code divides only by
  the literal 100 and by a value it has tested to be positive, so that branch is never
  taken here; it is \<open>NaN\<close> in the model.
\<close>

fun divide_jsnum :: "jsnum \<Rightarrow> jsnum \<Rightarrow> jsnum" where
  "divide_jsnum (Num a) (Num b) = (if b = 0 then NaN else Num (a / b))"
| "divide_jsnum _ _ = NaN"

fun inverse_jsnum :: "jsnum \<Rightarrow> jsnum" where
  "inverse_jsnum (Num a) = (if a = 0 then NaN else Num (inverse a))"
| "inverse_jsnum NaN = NaN"

instance ..

end

fun isNaN :: "jsnum \<Rightarrow> bool" where
  "isNaN NaN = True"
| "isNaN (Num a) = False"

text \<open>\<^verbatim>\<open>a < b\<close> and \<^verbatim>\<open>a > b\<close>: a comparison with \<open>NaN\<close> is false.\<close>

fun js_lt :: "jsnum \<Rightarrow> jsnum \<Rightarrow> bool" where
  "js_lt (Num a) (Num b) = (a < b)"
| "js_lt _ _ = False"

definition js_gt :: "jsnum \<Rightarrow> jsnum \<Rightarrow> bool" where
  "js_gt a b = js_lt b a"

fun Math_min :: "jsnum \<Rightarrow> jsnum \<Rightarrow> jsnum" where
  "Math_min (Num a) (Num b) = Num (min a b)"
| "Math_min _ _ = NaN"

fun Math_max :: "jsnum \<Rightarrow> jsnum \<Rightarrow> jsnum" where
  "Math_max (Num a) (Num b) = Num (max a b)"
| "Math_max _ _ = NaN"

fun Math_abs :: "jsnum \<Rightarrow> jsnum" where
  "Math_abs (Num a) = Num \<bar>a\<bar>"
| "Math_abs NaN = NaN"

text \<open>Truthiness of a number, as \<^verbatim>\<open>if (x)\<close> and \<^verbatim>\<open>x || y\<close> test it: 0 and \<open>NaN\<close> are falsy.\<close>

fun truthy :: "jsnum \<Rightarrow> bool" where
  "truthy (Num a) = (a \<noteq> 0)"
| "truthy NaN = False"

definition js_or :: "jsnum \<Rightarrow> jsnum \<Rightarrow> jsnum" where
  "js_or a b = (if truthy a then a else b)"

section \<open>Configuration\<close>

record transport_factors =
  car :: jsnum
  flightShort :: jsnum
  publicTransport :: jsnum

record energy_factors =
  electricity :: jsnum
  gas :: jsnum

record food_factors =
  meatMeal :: jsnum
  dairyServing :: jsnum

record waste_factors =
  wasteBag :: jsnum
  recyclingOffset :: jsnum

record shopping_factors =
  general :: jsnum
  electronics :: jsnum

text \<open>
  A group of factors that the configuration object lacks is \<open>None\<close>: reading a property
  of it throws a TypeError. A missing leaf is \<open>NaN\<close>, which is what arithmetic on
  \<^verbatim>\<open>undefined\<close> gives.
\<close>

record emission_factors =
  transport :: "transport_factors option"
  energy :: "energy_factors option"
  food :: "food_factors option"
  waste :: "waste_factors option"
  shopping :: "shopping_factors option"

record conversion_constants =
  kgToTonnes :: jsnum
  treesPerTonne :: jsnum

record config =
  emissionFactors :: "emission_factors option"
  conversions :: "conversion_constants option"

text \<open>The fallback of \<^verbatim>\<open>getConfig\<close> (lines 13 to 26); the fields no calculation reads are left out.\<close>

definition fallbackFactors :: emission_factors where
  "fallbackFactors =
     \<lparr> transport = Some \<lparr> car = Num 0.41, flightShort = Num 0.158, publicTransport = Num 0.053 \<rparr>,
       energy = Some \<lparr> electricity = Num 0.233, gas = Num 5.3 \<rparr>,
       food = Some \<lparr> meatMeal = Num 7.19, dairyServing = Num 2.5 \<rparr>,
       waste = Some \<lparr> wasteBag = Num 2.5, recyclingOffset = Num (- 1.2) \<rparr>,
       shopping = Some \<lparr> general = Num 0.005, electronics = Num 50 \<rparr> \<rparr>"

definition fallbackConfig :: config where
  "fallbackConfig =
     \<lparr> emissionFactors = Some fallbackFactors,
       conversions = Some \<lparr> kgToTonnes = Num 0.001, treesPerTonne = Num 20 \<rparr> \<rparr>"

text \<open>
  The global \<^verbatim>\<open>CONFIG\<close> is undeclared, \<^verbatim>\<open>null\<close> or an object; \<^verbatim>\<open>typeof\<close> tells the
  first from the other two. \<^verbatim>\<open>window.CONFIG\<close> is only tested for truthiness. The result
  \<open>None\<close> is a falsy configuration.
\<close>

datatype 'a js_global = Undefined | Null | Obj 'a

definition getConfig :: "config js_global \<Rightarrow> config option \<Rightarrow> config option" where
  "getConfig CONFIG window_CONFIG =
     (case CONFIG of
        Obj c \<Rightarrow> Some c
      | Null \<Rightarrow> None
      | Undefined \<Rightarrow>
          (case window_CONFIG of
             Some c \<Rightarrow> Some c
           | None \<Rightarrow> Some fallbackConfig))"

section \<open>The page, the log store and the stored calculation\<close>

text \<open>
  The form: for the id of an element, \<open>None\<close> when the page has no such element, and
  otherwise the number \<^verbatim>\<open>parseFloat(element.value)\<close> reads (\<open>NaN\<close> for empty or
  non-numeric text).
\<close>

type_synonym form = "string \<Rightarrow> jsnum option"

record breakdown =
  transportKg :: jsnum
  energyKg :: jsnum
  foodKg :: jsnum
  wasteKg :: jsnum
  shoppingKg :: jsnum

text \<open>
  \<^verbatim>\<open>appState.currentCalculation\<close>. Times are milliseconds since the epoch; the ISO text
  that carries them between \<^verbatim>\<open>toISOString\<close> and \<^verbatim>\<open>new Date\<close> is not modelled.
  The object built in the \<^verbatim>\<open>catch\<close> branch has no breakdown.
\<close>

record calculation =
  co2e :: jsnum
  category :: string
  timestamp :: int
  breakdown :: "breakdown option"

text \<open>
  An entry of \<^verbatim>\<open>api.getCarbonLogs()\<close>, with the fields the calculator reads. An absent
  field is \<open>None\<close>.
\<close>

record log_entry =
  log_id :: nat
  log_co2e :: "jsnum option"
  log_timestamp :: "int option"
  log_date :: "int option"

datatype rating = BelowAverage | CloseToAverage | AboveAverage

text \<open>
  The sentence about the previous calculation that is appended to the description. The
  numbers are the ones the text prints (before \<^verbatim>\<open>toFixed\<close>): the size of the difference
  and of the percent change.
\<close>

datatype comparison = NoComparison | Less jsnum jsnum | More jsnum jsnum | Matches

datatype description = EnterValues | Rated rating comparison

datatype effect =
    AlertConfigNotLoaded
  | AlertFootprint jsnum
  | ResultShown jsnum "description option"

record page =
  CONFIG :: "config js_global"
  window_CONFIG :: "config option"
  elements :: form
  resultElements :: bool
  resultDescription :: bool
  carbonLogs :: "log_entry list"
  now :: int
  currentCalculation :: "calculation option"

record outcome =
  returned :: bool
  stored :: "calculation option"
  effects :: "effect list"

section \<open>The calculation\<close>

text \<open>
  \<^verbatim>\<open>safeParseFloat\<close> (lines 315 to 323): a missing element, text that is not a
  number and a negative number all read as 0.
\<close>

definition safeParseFloat :: "form \<Rightarrow> string \<Rightarrow> jsnum" where
  "safeParseFloat form elementId =
     (case form elementId of
        None \<Rightarrow> Num 0
      | Some v \<Rightarrow> (if isNaN v \<or> js_lt v (Num 0) then Num 0 else v))"

datatype js_error = TypeError

text \<open>
  The \<^verbatim>\<open>try\<close> block of \<^verbatim>\<open>calculateFootprint\<close> up to the object it assigns to
  \<^verbatim>\<open>appState.currentCalculation\<close> (lines 325 to 441), in the order of the source.
  Reading a factor of a group that is missing throws; nothing but logging happens before
  the assignment, so the throw is the whole result. Each \<^verbatim>\<open>totalCo2e += x\<close> rebinds
  \<open>totalCo2e\<close>.
\<close>

definition computeCalculation ::
  "emission_factors \<Rightarrow> conversion_constants option \<Rightarrow> form \<Rightarrow> int \<Rightarrow> js_error + calculation" where
  "computeCalculation factors conv form time =
    (let totalCo2e = Num 0;
         carMiles = safeParseFloat form ''car-miles'';
         flights = safeParseFloat form ''flights'';
         publicTransport' = safeParseFloat form ''public-transport''
     in (case transport factors of None \<Rightarrow> Inl TypeError | Some transportF \<Rightarrow>
     (let transportCarCo2e = carMiles * car transportF * Num 12;
         transportFlightsCo2e = flights * Num 1000 * flightShort transportF;
         transportPublicCo2e = publicTransport' * publicTransport transportF * Num 12;
         totalCo2e = totalCo2e + transportCarCo2e;
         totalCo2e = totalCo2e + transportFlightsCo2e;
         totalCo2e = totalCo2e + transportPublicCo2e;
         electricity' = safeParseFloat form ''electricity'';
         gas' = safeParseFloat form ''gas'';
         renewablePercent =
           Math_min (Num 100) (Math_max (Num 0) (safeParseFloat form ''renewable-percent''))
     in (case energy factors of None \<Rightarrow> Inl TypeError | Some energyF \<Rightarrow>
     (let electricityEmissions =
           electricity' * electricity energyF * (Num 1 - renewablePercent / Num 100) * Num 12;
         gasCo2e = gas' * gas energyF * Num 12;
         totalCo2e = totalCo2e + electricityEmissions;
         totalCo2e = totalCo2e + gasCo2e;
         meatMeals = safeParseFloat form ''meat-meals'';
         dairyProducts = safeParseFloat form ''dairy-products'';
         localFoodPercent =
           Math_min (Num 100) (Math_max (Num 0) (safeParseFloat form ''local-food''));
         meatReduction = Math_max (Num 0.8) (Num 1 - (localFoodPercent / Num 100) * Num 0.2)
     in (case food factors of None \<Rightarrow> Inl TypeError | Some foodF \<Rightarrow>
     (let foodMeatCo2e = meatMeals * meatMeal foodF * Num 52 * meatReduction;
         foodDairyCo2e = dairyProducts * dairyServing foodF * Num 52;
         totalCo2e = totalCo2e + foodMeatCo2e;
         totalCo2e = totalCo2e + foodDairyCo2e;
         wasteBags = safeParseFloat form ''waste-bags'';
         recyclingPercent =
           Math_min (Num 100) (Math_max (Num 0) (safeParseFloat form ''recycling-percent''))
     in (case waste factors of None \<Rightarrow> Inl TypeError | Some wasteF \<Rightarrow>
     (let wasteEmissions = wasteBags * wasteBag wasteF * Num 52;
         recyclingOffset' =
           wasteEmissions * (recyclingPercent / Num 100) * Math_abs (recyclingOffset wasteF);
         wasteCo2e = wasteEmissions - recyclingOffset';
         totalCo2e = totalCo2e + wasteCo2e;
         shoppingSpend = safeParseFloat form ''shopping-spend'';
         electronics' = safeParseFloat form ''electronics''
     in (case shopping factors of None \<Rightarrow> Inl TypeError | Some shoppingF \<Rightarrow>
     (let shoppingCo2e = shoppingSpend * general shoppingF * Num 12;
         electronicsCo2e = electronics' * electronics shoppingF;
         totalCo2e = totalCo2e + shoppingCo2e;
         totalCo2e = totalCo2e + electronicsCo2e
     in (case conv of None \<Rightarrow> Inl TypeError | Some conversionsC \<Rightarrow>
     (let totalTonnes = totalCo2e * kgToTonnes conversionsC
     in Inr \<lparr> co2e = totalTonnes,
              category = ''mixed'',
              timestamp = time,
              breakdown = Some
                \<lparr> transportKg = transportCarCo2e + transportFlightsCo2e + transportPublicCo2e,
                  energyKg = electricityEmissions + gasCo2e,
                  foodKg = foodMeatCo2e + foodDairyCo2e,
                  wasteKg = wasteCo2e,
                  shoppingKg = shoppingCo2e + electronicsCo2e \<rparr> \<rparr>)))))))))))))"

section \<open>The previous calculation\<close>

text \<open>
  \<^verbatim>\<open>Array.prototype.sort\<close> with a comparison function is a stable sort: \<open>a\<close> comes
  before \<open>b\<close> when the comparison is negative, and elements that compare equal keep
  their order. For a comparison that is a consistent order, as a difference of dates is,
  the sorted array is determined; insertion from the right computes it.
\<close>

fun insertSorted :: "('a \<Rightarrow> 'a \<Rightarrow> int) \<Rightarrow> 'a \<Rightarrow> 'a list \<Rightarrow> 'a list" where
  "insertSorted cmp a [] = [a]"
| "insertSorted cmp a (b # bs) =
     (if cmp a b \<le> 0 then a # b # bs else b # insertSorted cmp a bs)"

fun array_sort :: "('a \<Rightarrow> 'a \<Rightarrow> int) \<Rightarrow> 'a list \<Rightarrow> 'a list" where
  "array_sort cmp [] = []"
| "array_sort cmp (a # as) = insertSorted cmp a (array_sort cmp as)"

text \<open>\<^verbatim>\<open>new Date(a.timestamp || a.date || 0)\<close>, as milliseconds.\<close>

definition logDate :: "log_entry \<Rightarrow> int" where
  "logDate a =
     (case log_timestamp a of
        Some t \<Rightarrow> t
      | None \<Rightarrow> (case log_date a of Some d \<Rightarrow> d | None \<Rightarrow> 0))"

text \<open>\<^verbatim>\<open>getPreviousCalculation\<close> (lines 470 to 482); \<open>None\<close> is \<^verbatim>\<open>null\<close>.\<close>

definition getPreviousCalculation :: "log_entry list \<Rightarrow> log_entry option" where
  "getPreviousCalculation logs =
     (if length logs = 0 then None
      else
        (let sortedLogs = array_sort (\<lambda>a b. logDate b - logDate a) logs
         in case sortedLogs of [] \<Rightarrow> None | first # _ \<Rightarrow> Some first))"

section \<open>Showing and saving the result\<close>

text \<open>
  Lines 524 to 527 of \<^verbatim>\<open>displayCalculationResult\<close>: the difference and the percent
  change against the previous calculation, or \<open>None\<close> when the guard
  \<^verbatim>\<open>previousCalculation && previousCalculation.co2e\<close> fails and neither is computed.
  \<^verbatim>\<open>parseFloat\<close> of a number is that number.
\<close>

definition previousComparison :: "jsnum \<Rightarrow> log_entry option \<Rightarrow> (jsnum \<times> jsnum) option" where
  "previousComparison displayValue previousCalculation =
     (case previousCalculation of
        None \<Rightarrow> None
      | Some p \<Rightarrow>
          (case log_co2e p of
             None \<Rightarrow> None
           | Some c \<Rightarrow>
               if truthy c then
                 (let previousValue = js_or c (Num 0);
                      difference = displayValue - previousValue;
                      percentChange =
                        (if js_gt previousValue (Num 0)
                         then (difference / previousValue) * Num 100 else Num 0)
                  in Some (difference, percentChange))
               else None))"

text \<open>Lines 515 to 538: the description of a displayed value that is not 0.\<close>

definition describeResult :: "jsnum \<Rightarrow> log_entry option \<Rightarrow> description" where
  "describeResult displayValue previousCalculation =
     (let base =
            (if js_lt displayValue (Num 4) then BelowAverage
             else if js_lt displayValue (Num 8) then CloseToAverage
             else AboveAverage)
      in case previousComparison displayValue previousCalculation of
           None \<Rightarrow> Rated base NoComparison
         | Some (difference, percentChange) \<Rightarrow>
             if js_gt (Math_abs difference) (Num 0.01) then
               (if js_lt difference (Num 0)
                then Rated base (Less (Math_abs difference) (Math_abs percentChange))
                else Rated base (More difference percentChange))
             else Rated base Matches)"

text \<open>
  \<^verbatim>\<open>displayCalculationResult\<close> (lines 485 to 556). Without the result elements the
  raw value goes to an alert; without the description element only the value is shown.
\<close>

definition displayCalculationResult :: "bool \<Rightarrow> bool \<Rightarrow> jsnum \<Rightarrow> log_entry option \<Rightarrow> effect" where
  "displayCalculationResult resultElems descriptionElem tonnes previousCalculation =
     (if \<not> resultElems then AlertFootprint tonnes
      else
        (let displayValue = (if isNaN tonnes \<or> js_lt tonnes (Num 0) then Num 0 else tonnes)
         in ResultShown displayValue
              (if descriptionElem then
                 Some (if displayValue = Num 0 then EnterValues
                       else describeResult displayValue previousCalculation)
               else None)))"

text \<open>
  \<^verbatim>\<open>calculateFootprint\<close> (lines 299 to 467). The \<^verbatim>\<open>catch\<close> branch stores a
  calculation of 0 and shows it with no previous calculation.
\<close>

definition calculateFootprint :: "page \<Rightarrow> outcome" where
  "calculateFootprint pg =
     (let notLoaded =
            \<lparr> returned = False, stored = currentCalculation pg,
              effects = [AlertConfigNotLoaded] \<rparr>
      in case getConfig (CONFIG pg) (window_CONFIG pg) of
           None \<Rightarrow> notLoaded
         | Some CONFIG_TO_USE \<Rightarrow>
             (case emissionFactors CONFIG_TO_USE of
                None \<Rightarrow> notLoaded
              | Some factors \<Rightarrow>
                  (case computeCalculation factors (conversions CONFIG_TO_USE)
                          (elements pg) (now pg) of
                     Inr calc \<Rightarrow>
                       \<lparr> returned = True, stored = Some calc,
                         effects =
                           [displayCalculationResult (resultElements pg) (resultDescription pg)
                              (co2e calc) (getPreviousCalculation (carbonLogs pg))] \<rparr>
                   | Inl error \<Rightarrow>
                       \<lparr> returned = False,
                         stored = Some \<lparr> co2e = Num 0, category = ''mixed'',
                                         timestamp = now pg, breakdown = None \<rparr>,
                         effects =
                           [displayCalculationResult (resultElements pg) (resultDescription pg)
                              (Num 0) None] \<rparr>)))"

text \<open>
  The notes of a saved calculation (lines 583 to 595): the footprint, and the change from
  the previous calculation when it is reported.
\<close>

datatype change = NoChange | Reduction jsnum | Increase jsnum

definition composeNotes :: "jsnum \<Rightarrow> log_entry option \<Rightarrow> jsnum \<times> change" where
  "composeNotes current previousCalculation =
     (current,
      (case previousCalculation of
         None \<Rightarrow> NoChange
       | Some p \<Rightarrow>
           (case log_co2e p of
              None \<Rightarrow> NoChange
            | Some c \<Rightarrow>
                if truthy c then
                  (let previousValue = js_or c (Num 0);
                       difference = current - previousValue
                   in if js_gt (Math_abs difference) (Num 0.01) then
                        (if js_lt difference (Num 0)
                         then Reduction (Math_abs difference)
                         else Increase difference)
                      else NoChange)
                else NoChange)))"

record log_data =
  ld_category :: string
  ld_co2e :: jsnum
  ld_value :: jsnum
  ld_notes :: "jsnum \<times> change"
  ld_timestamp :: int

text \<open>
  \<^verbatim>\<open>saveCalculation\<close> (lines 565 to 606): the record handed to
  \<^verbatim>\<open>api.saveCarbonLog\<close>, or \<open>None\<close> when there is no calculation to save. An
  empty category is replaced by \<^verbatim>\<open>'mixed'\<close>; the timestamp of a stored calculation
  is never empty, so its \<^verbatim>\<open>||\<close> default is not taken.
\<close>

definition saveCalculation :: "page \<Rightarrow> log_data option" where
  "saveCalculation pg =
     (case currentCalculation pg of
        None \<Rightarrow> None
      | Some calc \<Rightarrow>
          (let previousCalculation = getPreviousCalculation (carbonLogs pg);
               notes = composeNotes (co2e calc) previousCalculation
           in Some \<lparr> ld_category = (if category calc = [] then ''mixed'' else category calc),
                     ld_co2e = co2e calc,
                     ld_value = co2e calc,
                     ld_notes = notes,
                     ld_timestamp = timestamp calc \<rparr>))"

section \<open>The calculation in binary64\<close>

text \<open>
  The numbers of JavaScript are binary64 values, and every arithmetic operation rounds its
  exact result to the nearest one, ties to the even significand. The calculation above
  is exact; here it is repeated with the rounding, for the one property that depends on
  it. The exponent is unbounded in this model: for results between \<open>2\<^sup>-\<^sup>1\<^sup>0\<^sup>2\<^sup>2\<close> and
  \<open>2\<^sup>1\<^sup>0\<^sup>2\<^sup>4\<close> in size the rounding is that of IEEE 754, while overflow to an infinity and
  gradual underflow are not modelled.
\<close>

text \<open>The nearest integer, ties to even.\<close>

definition rne :: "real \<Rightarrow> real" where
  "rne x =
     (let f = \<lfloor>x\<rfloor>; d = x - of_int f
      in if d < 1 / 2 then of_int f
         else if 1 / 2 < d then of_int (f + 1)
         else if even f then of_int f else of_int (f + 1))"

text \<open>
  A positive real rounded to 53 significant bits: scaled by powers of 2 (which is exact)
  into the range from \<open>2\<^sup>5\<^sup>2\<close> to \<open>2\<^sup>5\<^sup>3\<close>, rounded to an integer there, and scaled back.
\<close>

function round53 :: "real \<Rightarrow> real" where
  "round53 x =
     (if x \<le> 0 then 0
      else if 2 ^ 53 \<le> x then 2 * round53 (x / 2)
      else if x < 2 ^ 52 then round53 (2 * x) / 2
      else rne x)"
  by pat_completeness auto

termination
proof -
  have half: "\<lceil>c / 2\<rceil> < \<lceil>c\<rceil>" if "2 \<le> c" for c :: real
  proof -
    from that have "c / 2 + 1 \<le> c" by simp
    moreover have "of_int \<lceil>c / 2\<rceil> < c / 2 + 1" by linarith
    moreover have "c \<le> of_int \<lceil>c\<rceil>" by linarith
    ultimately have "(of_int \<lceil>c / 2\<rceil> :: real) < of_int \<lceil>c\<rceil>" by linarith
    then show ?thesis by simp
  qed
  let ?m = "\<lambda>x::real. if 2 ^ 53 \<le> x then nat \<lceil>x\<rceil>
      else if 0 < x \<and> x < 2 ^ 52 then nat \<lceil>2 ^ 52 / x\<rceil> else 0"
  show ?thesis
  proof (relation "measure ?m")
    show "wf (measure ?m)" by simp
  next
    fix x :: real
    assume a: "\<not> x \<le> 0" "2 ^ 53 \<le> x"
    then have "2 \<le> x" by simp
    then have "\<lceil>x / 2\<rceil> < \<lceil>x\<rceil>" by (rule half)
    moreover have "0 < \<lceil>x\<rceil>" using a by simp
    moreover have "\<not> x / 2 < 2 ^ 52" using a by simp
    ultimately show "(x / 2, x) \<in> measure ?m" using a by auto
  next
    fix x :: real
    assume a: "\<not> x \<le> 0" "\<not> 2 ^ 53 \<le> x" "x < 2 ^ 52"
    then have p: "0 < x" by simp
    have n: "\<not> 2 ^ 53 \<le> 2 * x" using a by simp
    have "1 < 2 ^ 52 / x" using a p by (simp add: field_simps)
    then have pos: "0 < \<lceil>2 ^ 52 / x\<rceil>" by linarith
    have "\<lceil>2 ^ 52 / (2 * x)\<rceil> < \<lceil>2 ^ 52 / x\<rceil>" if "2 * x < 2 ^ 52"
    proof -
      from that p have "2 \<le> 2 ^ 52 / x" by (simp add: field_simps)
      from half [OF this] show ?thesis by (simp add: field_simps)
    qed
    then show "(2 * x, x) \<in> measure ?m" using n p pos a by auto
  qed
qed

declare round53.simps [simp del]

definition fl64 :: "real \<Rightarrow> real" where
  "fl64 x = (if 0 \<le> x then round53 x else - round53 (- x))"

text \<open>A number made a binary64 value: what a literal, a parsed field or a result is.\<close>

fun round_js :: "(real \<Rightarrow> real) \<Rightarrow> jsnum \<Rightarrow> jsnum" where
  "round_js rnd (Num x) = Num (rnd x)"
| "round_js rnd NaN = NaN"

text \<open>
  The \<^verbatim>\<open>try\<close> block of \<^verbatim>\<open>calculateFootprint\<close> again (lines 325 to 441), with a rounding
  \<open>rnd\<close> after every operation and on every number read from the form, from the
  configuration or from a literal that is not an integer. \<^verbatim>\<open>Math.min\<close>, \<^verbatim>\<open>Math.max\<close>
  and \<^verbatim>\<open>Math.abs\<close> are exact. With the identity for \<open>rnd\<close> this is \<open>computeCalculation\<close>.
\<close>

definition roundedCalculation ::
  "(real \<Rightarrow> real) \<Rightarrow> emission_factors \<Rightarrow> conversion_constants option \<Rightarrow> form \<Rightarrow> int
     \<Rightarrow> js_error + calculation" where
  "roundedCalculation rnd factors conv form time =
    (let rd = round_js rnd;
         add = (\<lambda>a b. rd (a + b));
         sub = (\<lambda>a b. rd (a - b));
         mul = (\<lambda>a b. rd (a * b));
         quot = (\<lambda>a b. rd (a / b));
         parsed = (\<lambda>elementId. map_option rd (form elementId));
         totalCo2e = Num 0;
         carMiles = safeParseFloat parsed ''car-miles'';
         flights = safeParseFloat parsed ''flights'';
         publicTransport' = safeParseFloat parsed ''public-transport''
     in (case transport factors of None \<Rightarrow> Inl TypeError | Some transportF \<Rightarrow>
     (let transportCarCo2e = mul (mul carMiles (rd (car transportF))) (Num 12);
         transportFlightsCo2e = mul (mul flights (Num 1000)) (rd (flightShort transportF));
         transportPublicCo2e = mul (mul publicTransport' (rd (publicTransport transportF))) (Num 12);
         totalCo2e = add totalCo2e transportCarCo2e;
         totalCo2e = add totalCo2e transportFlightsCo2e;
         totalCo2e = add totalCo2e transportPublicCo2e;
         electricity' = safeParseFloat parsed ''electricity'';
         gas' = safeParseFloat parsed ''gas'';
         renewablePercent =
           Math_min (Num 100) (Math_max (Num 0) (safeParseFloat parsed ''renewable-percent''))
     in (case energy factors of None \<Rightarrow> Inl TypeError | Some energyF \<Rightarrow>
     (let electricityEmissions =
           mul (mul (mul electricity' (rd (electricity energyF)))
                  (sub (Num 1) (quot renewablePercent (Num 100))))
             (Num 12);
         gasCo2e = mul (mul gas' (rd (gas energyF))) (Num 12);
         totalCo2e = add totalCo2e electricityEmissions;
         totalCo2e = add totalCo2e gasCo2e;
         meatMeals = safeParseFloat parsed ''meat-meals'';
         dairyProducts = safeParseFloat parsed ''dairy-products'';
         localFoodPercent =
           Math_min (Num 100) (Math_max (Num 0) (safeParseFloat parsed ''local-food''));
         meatReduction =
           Math_max (rd (Num 0.8))
             (sub (Num 1) (mul (quot localFoodPercent (Num 100)) (rd (Num 0.2))))
     in (case food factors of None \<Rightarrow> Inl TypeError | Some foodF \<Rightarrow>
     (let foodMeatCo2e = mul (mul (mul meatMeals (rd (meatMeal foodF))) (Num 52)) meatReduction;
         foodDairyCo2e = mul (mul dairyProducts (rd (dairyServing foodF))) (Num 52);
         totalCo2e = add totalCo2e foodMeatCo2e;
         totalCo2e = add totalCo2e foodDairyCo2e;
         wasteBags = safeParseFloat parsed ''waste-bags'';
         recyclingPercent =
           Math_min (Num 100) (Math_max (Num 0) (safeParseFloat parsed ''recycling-percent''))
     in (case waste factors of None \<Rightarrow> Inl TypeError | Some wasteF \<Rightarrow>
     (let wasteEmissions = mul (mul wasteBags (rd (wasteBag wasteF))) (Num 52);
         recyclingOffset' =
           mul (mul wasteEmissions (quot recyclingPercent (Num 100)))
             (Math_abs (rd (recyclingOffset wasteF)));
         wasteCo2e = sub wasteEmissions recyclingOffset';
         totalCo2e = add totalCo2e wasteCo2e;
         shoppingSpend = safeParseFloat parsed ''shopping-spend'';
         electronics' = safeParseFloat parsed ''electronics''
     in (case shopping factors of None \<Rightarrow> Inl TypeError | Some shoppingF \<Rightarrow>
     (let shoppingCo2e = mul (mul shoppingSpend (rd (general shoppingF))) (Num 12);
         electronicsCo2e = mul electronics' (rd (electronics shoppingF));
         totalCo2e = add totalCo2e shoppingCo2e;
         totalCo2e = add totalCo2e electronicsCo2e
     in (case conv of None \<Rightarrow> Inl TypeError | Some conversionsC \<Rightarrow>
     (let totalTonnes = mul totalCo2e (rd (kgToTonnes conversionsC))
     in Inr \<lparr> co2e = totalTonnes,
              category = ''mixed'',
              timestamp = time,
              breakdown = Some
                \<lparr> transportKg = add (add transportCarCo2e transportFlightsCo2e) transportPublicCo2e,
                  energyKg = add electricityEmissions gasCo2e,
                  foodKg = add foodMeatCo2e foodDairyCo2e,
                  wasteKg = wasteCo2e,
                  shoppingKg = add shoppingCo2e electronicsCo2e \<rparr> \<rparr>)))))))))))))"

text \<open>
  What \<^verbatim>\<open>calculateFootprint\<close> leaves in \<^verbatim>\<open>appState.currentCalculation\<close> when the
  calculation is done with rounding \<open>rnd\<close>, and with binary64 rounding.
\<close>

definition storedRounded :: "(real \<Rightarrow> real) \<Rightarrow> page \<Rightarrow> calculation option" where
  "storedRounded rnd pg =
     (case getConfig (CONFIG pg) (window_CONFIG pg) of
        None \<Rightarrow> currentCalculation pg
      | Some CONFIG_TO_USE \<Rightarrow>
          (case emissionFactors CONFIG_TO_USE of
             None \<Rightarrow> currentCalculation pg
           | Some factors \<Rightarrow>
               (case roundedCalculation rnd factors (conversions CONFIG_TO_USE)
                       (elements pg) (now pg) of
                  Inr calc \<Rightarrow> Some calc
                | Inl error \<Rightarrow>
                    Some \<lparr> co2e = Num 0, category = ''mixed'', timestamp = now pg,
                           breakdown = None \<rparr>)))"

definition stored64 :: "page \<Rightarrow> calculation option" where
  "stored64 pg = storedRounded fl64 pg"

section \<open>Notions the properties are stated with\<close>

text \<open>
  A configuration is structurally complete when the table of factors, each of its five
  groups and the conversion constants are there. A leaf may still be \<open>NaN\<close>.
\<close>

definition structurallyComplete :: "config \<Rightarrow> bool" where
  "structurallyComplete c =
     (case emissionFactors c of
        None \<Rightarrow> False
      | Some f \<Rightarrow>
          transport f \<noteq> None \<and> energy f \<noteq> None \<and> food f \<noteq> None \<and>
          waste f \<noteq> None \<and> shopping f \<noteq> None \<and> conversions c \<noteq> None)"

text \<open>The form with every malformed field (absent, not a number, negative) replaced by 0.\<close>

definition sanitized :: "form \<Rightarrow> form" where
  "sanitized form =
     (\<lambda>elementId. case form elementId of
        Some (Num v) \<Rightarrow> if v < 0 then Some (Num 0) else Some (Num v)
      | _ \<Rightarrow> Some (Num 0))"

text \<open>
  A page for the examples: no configuration loaded (so the fallback is used), every
  field left blank, the result panel present, an empty log.
\<close>

definition blankPage :: page where
  "blankPage =
     \<lparr> CONFIG = Undefined, window_CONFIG = None, elements = (\<lambda>elementId. Some NaN),
       resultElements = True, resultDescription = True, carbonLogs = [], now = 0,
       currentCalculation = None \<rparr>"

text \<open>Pages for the examples below, all built on the blank page.\<close>

definition wastePage :: page where
  "wastePage =
     blankPage\<lparr>elements :=
       (elements blankPage)(''waste-bags'' \<mapsto> Num 1, ''recycling-percent'' \<mapsto> Num 100)\<rparr>"

definition carPage :: page where
  "carPage =
     blankPage\<lparr>elements :=
       (\<lambda>elementId. Some (Num 0))
         (''car-miles'' \<mapsto> Num 100, ''electricity'' \<mapsto> Num 300,
          ''renewable-percent'' \<mapsto> Num 50)\<rparr>"

definition malformedPage :: page where
  "malformedPage =
     blankPage\<lparr>elements :=
       (elements blankPage)(''car-miles'' \<mapsto> Num (- 3), ''flights'' := None, ''gas'' \<mapsto> Num 2)\<rparr>"

definition noConversionsPage :: page where
  "noConversionsPage =
     blankPage\<lparr>CONFIG := Obj \<lparr> emissionFactors = Some fallbackFactors, conversions = None \<rparr>,
       elements := (elements blankPage)(''car-miles'' \<mapsto> Num 100)\<rparr>"

definition noWastePage :: page where
  "noWastePage =
     blankPage\<lparr>CONFIG := Obj \<lparr> emissionFactors = Some (fallbackFactors\<lparr>waste := None\<rparr>),
                            conversions = conversions fallbackConfig \<rparr>,
       elements := (elements blankPage)(''car-miles'' \<mapsto> Num 100)\<rparr>"

definition nullConfigPage :: page where
  "nullConfigPage = blankPage\<lparr>CONFIG := Null\<rparr>"

text \<open>
  A page whose categories cancel: in exact arithmetic its contributions are 49.2, -104,
  4.8 and 50 kg.
\<close>

definition cancellingPage :: page where
  "cancellingPage =
     blankPage\<lparr>elements :=
       (elements blankPage)
         (''car-miles'' \<mapsto> Num 10, ''waste-bags'' \<mapsto> Num 4, ''recycling-percent'' \<mapsto> Num 100,
          ''shopping-spend'' \<mapsto> Num 80, ''electronics'' \<mapsto> Num 1)\<rparr>"

text \<open>Log entries for the examples: a previous footprint of 4 tonnes, and one of 0.\<close>

definition previous4 :: log_entry where
  "previous4 = \<lparr> log_id = 1, log_co2e = Some (Num 4), log_timestamp = Some 1, log_date = None \<rparr>"

definition previous0 :: log_entry where
  "previous0 = \<lparr> log_id = 1, log_co2e = Some (Num 0), log_timestamp = Some 1, log_date = None \<rparr>"

definition zeroLogPage :: page where
  "zeroLogPage =
     blankPage\<lparr>carbonLogs := [previous0],
       elements := (elements blankPage)(''flights'' \<mapsto> Num 2)\<rparr>"

section \<open>Arithmetic of JavaScript numbers\<close>

lemma jsnum_add_assoc: "(a + b) + c = a + (b + (c::jsnum))"
  by (cases a; cases b; cases c) simp_all

lemma jsnum_zero_add: "Num 0 + a = a"
  by (cases a) simp_all

section \<open>The calculation, step by step\<close>

lemma computeCalculation_complete:
  assumes "transport f = Some tr" "energy f = Some en" "food f = Some fo"
    "waste f = Some wa" "shopping f = Some sh"
  shows "\<exists>calc b. computeCalculation f (Some cv) form time = Inr calc \<and> breakdown calc = Some b
     \<and> co2e calc = (transportKg b + energyKg b + foodKg b + wasteKg b + shoppingKg b) * kgToTonnes cv"
  using assms by (simp add: computeCalculation_def Let_def jsnum_add_assoc jsnum_zero_add)

lemma computeCalculation_missing:
  assumes "transport f = None \<or> energy f = None \<or> food f = None \<or> waste f = None \<or>
    shopping f = None \<or> conv = None"
  shows "computeCalculation f conv form time = Inl TypeError"
  using assms by (auto simp add: computeCalculation_def Let_def split: option.splits)

lemma safeParseFloat_negative:
  "v < 0 \<Longrightarrow> safeParseFloat (form(k \<mapsto> Num v)) = safeParseFloat (form(k \<mapsto> Num 0))"
  by (rule ext) (simp add: safeParseFloat_def)

lemma computeCalculation_negative:
  "v < 0 \<Longrightarrow>
   computeCalculation f c (form(k \<mapsto> Num v)) t = computeCalculation f c (form(k \<mapsto> Num 0)) t"
  unfolding computeCalculation_def by (simp only: safeParseFloat_negative)

lemma computeCalculation_renewable:
  "100 < v \<Longrightarrow>
   computeCalculation f c (form(''renewable-percent'' \<mapsto> Num v)) t =
   computeCalculation f c (form(''renewable-percent'' \<mapsto> Num 100)) t"
  by (simp add: computeCalculation_def safeParseFloat_def Let_def cong: option.case_cong)

lemma computeCalculation_local:
  "100 < v \<Longrightarrow>
   computeCalculation f c (form(''local-food'' \<mapsto> Num v)) t =
   computeCalculation f c (form(''local-food'' \<mapsto> Num 100)) t"
  by (simp add: computeCalculation_def safeParseFloat_def Let_def cong: option.case_cong)

lemma computeCalculation_recycling:
  "100 < v \<Longrightarrow>
   computeCalculation f c (form(''recycling-percent'' \<mapsto> Num v)) t =
   computeCalculation f c (form(''recycling-percent'' \<mapsto> Num 100)) t"
  by (simp add: computeCalculation_def safeParseFloat_def Let_def cong: option.case_cong)

lemma calculateFootprint_Inr:
  assumes "getConfig (CONFIG pg) (window_CONFIG pg) = Some cfg" "emissionFactors cfg = Some f"
    "computeCalculation f (conversions cfg) (elements pg) (now pg) = Inr calc"
  shows "calculateFootprint pg =
      \<lparr> returned = True, stored = Some calc,
        effects = [displayCalculationResult (resultElements pg) (resultDescription pg)
                     (co2e calc) (getPreviousCalculation (carbonLogs pg))] \<rparr>"
  using assms by (simp add: calculateFootprint_def)

lemma calculateFootprint_Inl:
  assumes "getConfig (CONFIG pg) (window_CONFIG pg) = Some cfg" "emissionFactors cfg = Some f"
    "computeCalculation f (conversions cfg) (elements pg) (now pg) = Inl e"
  shows "calculateFootprint pg =
      \<lparr> returned = False,
        stored = Some \<lparr> co2e = Num 0, category = ''mixed'', timestamp = now pg,
                        breakdown = None \<rparr>,
        effects = [displayCalculationResult (resultElements pg) (resultDescription pg)
                     (Num 0) None] \<rparr>"
  using assms by (simp add: calculateFootprint_def)

lemma calculateFootprint_notLoaded:
  assumes "getConfig (CONFIG pg) (window_CONFIG pg) = None
     \<or> (\<exists>cfg. getConfig (CONFIG pg) (window_CONFIG pg) = Some cfg \<and> emissionFactors cfg = None)"
  shows "calculateFootprint pg =
      \<lparr> returned = False, stored = currentCalculation pg, effects = [AlertConfigNotLoaded] \<rparr>"
  using assms by (auto simp add: calculateFootprint_def)

lemma returned_cases:
  assumes "returned (calculateFootprint pg)"
  obtains cfg f calc where "getConfig (CONFIG pg) (window_CONFIG pg) = Some cfg"
    "emissionFactors cfg = Some f"
    "computeCalculation f (conversions cfg) (elements pg) (now pg) = Inr calc"
  using assms
  by (auto simp add: calculateFootprint_def Let_def split: option.splits sum.splits)

lemma complete_obtain:
  assumes "structurallyComplete cfg"
  obtains f tr en fo wa sh cv where "emissionFactors cfg = Some f" "transport f = Some tr"
    "energy f = Some en" "food f = Some fo" "waste f = Some wa" "shopping f = Some sh"
    "conversions cfg = Some cv"
  using assms by (auto simp add: structurallyComplete_def split: option.splits)

lemma calculateFootprint_elements_cong:
  assumes "\<And>f c t. computeCalculation f c e1 t = computeCalculation f c e2 t"
  shows "calculateFootprint (pg\<lparr>elements := e1\<rparr>) = calculateFootprint (pg\<lparr>elements := e2\<rparr>)"
  by (simp add: calculateFootprint_def Let_def assms cong: option.case_cong sum.case_cong)

lemma blankPage_config:
  "getConfig (CONFIG blankPage) (window_CONFIG blankPage) = Some fallbackConfig"
  by (simp add: getConfig_def blankPage_def)

lemma fallbackConfig_complete: "structurallyComplete fallbackConfig"
  by (simp add: structurallyComplete_def fallbackConfig_def fallbackFactors_def)

lemma safeParseFloat_sanitized: "safeParseFloat (sanitized form) = safeParseFloat form"
proof (rule ext)
  fix elementId
  show "safeParseFloat (sanitized form) elementId = safeParseFloat form elementId"
  proof (cases "form elementId")
    case None
    then show ?thesis by (simp add: safeParseFloat_def sanitized_def)
  next
    case (Some v)
    then show ?thesis by (cases v) (simp_all add: safeParseFloat_def sanitized_def)
  qed
qed

lemma computeCalculation_sanitized:
  "computeCalculation f c (sanitized form) t = computeCalculation f c form t"
  unfolding computeCalculation_def by (simp only: safeParseFloat_sanitized)

lemma safeParseFloat_malformed:
  "form elementId = None \<or> form elementId = Some NaN \<or> (\<exists>v<0. form elementId = Some (Num v))
   \<Longrightarrow> safeParseFloat form elementId = Num 0"
  by (auto simp add: safeParseFloat_def)

lemma computeCalculation_waste:
  assumes "computeCalculation f conv form time = Inr calc" "waste f = Some wasteF"
  shows "\<exists>b. breakdown calc = Some b \<and>
     wasteKg b =
       safeParseFloat form ''waste-bags'' * wasteBag wasteF * Num 52 -
       safeParseFloat form ''waste-bags'' * wasteBag wasteF * Num 52 *
         (Math_min (Num 100) (Math_max (Num 0) (safeParseFloat form ''recycling-percent'')) / Num 100) *
         Math_abs (recyclingOffset wasteF)"
  using assms by (auto simp add: computeCalculation_def Let_def split: option.splits)

lemma exact_total_matches_breakdown:
  assumes "getConfig (CONFIG pg) (window_CONFIG pg) = Some cfg"
    and "structurallyComplete cfg" and "conversions cfg = Some cv"
  shows "\<exists>calc b. stored (calculateFootprint pg) = Some calc \<and> breakdown calc = Some b \<and>
      co2e calc =
        (transportKg b + energyKg b + foodKg b + wasteKg b + shoppingKg b) * kgToTonnes cv"
proof -
  from assms(2) obtain f tr en fo wa sh cv' where g: "emissionFactors cfg = Some f"
    "transport f = Some tr" "energy f = Some en" "food f = Some fo" "waste f = Some wa"
    "shopping f = Some sh" "conversions cfg = Some cv'"
    by (rule complete_obtain)
  from computeCalculation_complete [OF g(2-6), of cv "elements pg" "now pg"]
  obtain calc b where
    c: "computeCalculation f (Some cv) (elements pg) (now pg) = Inr calc"
      "breakdown calc = Some b"
      "co2e calc =
         (transportKg b + energyKg b + foodKg b + wasteKg b + shoppingKg b) * kgToTonnes cv"
    by blast
  have "stored (calculateFootprint pg) = Some calc"
    using calculateFootprint_Inr [OF assms(1) g(1)] c(1) assms(3) by simp
  then show ?thesis using c(2,3) by blast
qed

section \<open>The examples, evaluated\<close>

lemmas example_defs =
  calculateFootprint_def computeCalculation_def getConfig_def fallbackConfig_def
  fallbackFactors_def safeParseFloat_def blankPage_def Let_def

lemma wastePage_outcome:
  "calculateFootprint wastePage =
     \<lparr> returned = True,
       stored = Some \<lparr> co2e = Num (- 0.026), category = ''mixed'', timestamp = 0,
         breakdown = Some \<lparr> transportKg = Num 0, energyKg = Num 0, foodKg = Num 0,
                             wasteKg = Num (- 26), shoppingKg = Num 0 \<rparr> \<rparr>,
       effects = [ResultShown (Num 0) (Some EnterValues)] \<rparr>"
  by (simp add: wastePage_def example_defs displayCalculationResult_def)

lemma wastePage_config:
  "getConfig (CONFIG wastePage) (window_CONFIG wastePage) = Some fallbackConfig"
  by (simp add: wastePage_def blankPage_config)

section \<open>Rounding to binary64\<close>

lemma rne_err: "\<bar>rne x - x\<bar> \<le> 1 / 2"
proof -
  have "of_int \<lfloor>x\<rfloor> \<le> x" "x < of_int \<lfloor>x\<rfloor> + 1" by linarith+
  then show ?thesis by (auto simp add: rne_def Let_def)
qed

lemma rne_le_int:
  assumes "x \<le> of_int n"
  shows "rne x \<le> of_int n"
proof (cases "x = of_int n")
  case True
  then show ?thesis by (simp add: rne_def)
next
  case False
  with assms have "x < of_int n" by simp
  then have "\<lfloor>x\<rfloor> < n" by (simp add: floor_less_iff)
  then have "\<lfloor>x\<rfloor> + 1 \<le> n" by simp
  then have b: "(of_int (\<lfloor>x\<rfloor> + 1) :: real) \<le> of_int n" by (simp only: of_int_le_iff)
  have "rne x \<le> of_int (\<lfloor>x\<rfloor> + 1)" by (simp add: rne_def Let_def)
  with b show ?thesis by linarith
qed

lemma round53_err: "0 < x \<Longrightarrow> \<bar>round53 x - x\<bar> \<le> x / 2 ^ 53"
proof (induction x rule: round53.induct)
  case (1 x)
  show ?case
  proof (cases "2 ^ 53 \<le> x")
    case True
    with "1.prems" have "\<bar>round53 (x / 2) - x / 2\<bar> \<le> x / 2 / 2 ^ 53"
      by (intro "1.IH"(1)) simp_all
    moreover have "round53 x = 2 * round53 (x / 2)"
      using True "1.prems" by (subst round53.simps) simp
    moreover have "\<bar>2 * round53 (x / 2) - x\<bar> = 2 * \<bar>round53 (x / 2) - x / 2\<bar>"
      by (simp add: abs_if)
    ultimately show ?thesis by simp
  next
    case False
    show ?thesis
    proof (cases "x < 2 ^ 52")
      case True
      with False "1.prems" have A: "\<bar>round53 (2 * x) - 2 * x\<bar> \<le> 2 * x / 2 ^ 53"
        by (intro "1.IH"(2)) simp_all
      have e: "round53 x = round53 (2 * x) / 2"
        using True False "1.prems" by (subst round53.simps) simp
      have "\<bar>round53 x - x\<bar> = \<bar>round53 (2 * x) - 2 * x\<bar> / 2"
        unfolding e by (simp add: abs_if)
      also have "\<dots> \<le> (2 * x / 2 ^ 53) / 2"
        using A by (rule divide_right_mono) simp
      also have "\<dots> = x / 2 ^ 53" by simp
      finally show ?thesis .
    next
      case b: False
      have "round53 x = rne x"
        using False b "1.prems" by (subst round53.simps) simp
      moreover have "1 / 2 \<le> x / 2 ^ 53" using b by simp
      ultimately show ?thesis using rne_err [of x] by linarith
    qed
  qed
qed

lemma fl64_err: "\<bar>fl64 x - x\<bar> \<le> \<bar>x\<bar> / 2 ^ 53"
proof (cases "0 < x")
  case True
  then show ?thesis using round53_err [of x] by (simp add: fl64_def)
next
  case False
  show ?thesis
  proof (cases "x = 0")
    case True
    then show ?thesis by (simp add: fl64_def round53.simps)
  next
    case n: False
    with False have "0 < - x" by simp
    from round53_err [OF this] False n show ?thesis by (simp add: fl64_def)
  qed
qed

lemma round53_le_pow2: "x \<le> 2 ^ a / 2 ^ b \<Longrightarrow> round53 x \<le> 2 ^ a / 2 ^ b"
proof (induction x arbitrary: a b rule: round53.induct)
  case (1 x)
  show ?case
  proof (cases "x \<le> 0")
    case True
    then show ?thesis by (subst round53.simps) simp
  next
    case pos: False
    show ?thesis
    proof (cases "2 ^ 53 \<le> x")
      case True
      have "round53 (x / 2) \<le> 2 ^ a / 2 ^ Suc b"
        using pos True "1.prems" by (intro "1.IH"(1)) simp_all
      moreover have "round53 x = 2 * round53 (x / 2)"
        using True pos by (subst round53.simps) simp
      ultimately show ?thesis by simp
    next
      case False
      show ?thesis
      proof (cases "x < 2 ^ 52")
        case True
        have "round53 (2 * x) \<le> 2 ^ Suc a / 2 ^ b"
          using pos False True "1.prems" by (intro "1.IH"(2)) simp_all
        moreover have "round53 x = round53 (2 * x) / 2"
          using True False pos by (subst round53.simps) simp
        ultimately show ?thesis by simp
      next
        case big: False
        have r: "round53 x = rne x"
          using False big pos by (subst round53.simps) simp
        have "1 \<le> x" using big by simp
        with "1.prems" have "(1::real) \<le> 2 ^ a / 2 ^ b" by linarith
        then have "b \<le> a" by simp
        then have "(2::real) ^ a / 2 ^ b = 2 ^ (a - b)" by (simp add: power_diff)
        also have "\<dots> = of_int (2 ^ (a - b))" by simp
        finally have e: "(2::real) ^ a / 2 ^ b = of_int (2 ^ (a - b))" .
        from "1.prems" have "rne x \<le> of_int (2 ^ (a - b))"
          unfolding e by (rule rne_le_int)
        then show ?thesis using r e by simp
      qed
    qed
  qed
qed

lemma fl64_le_one: "x \<le> 1 \<Longrightarrow> fl64 x \<le> 1"
proof (cases "0 \<le> x")
  case True
  assume "x \<le> 1"
  then have "round53 x \<le> 2 ^ 0 / 2 ^ 0" by (intro round53_le_pow2) simp
  with True show ?thesis by (simp add: fl64_def)
next
  case False
  then have "0 < - x" by simp
  from round53_err [OF this] have "0 \<le> round53 (- x)" by simp
  with False show ?thesis by (simp add: fl64_def)
qed

lemma rounded_sums_close:
  fixes rnd :: "real \<Rightarrow> real"
  assumes P1: "\<And>x. \<bar>rnd x - x\<bar> \<le> \<bar>x\<bar> / 2 ^ 53"
    and nn: "0 \<le> a1" "0 \<le> a2" "0 \<le> a3" "0 \<le> a4" "0 \<le> a5" "0 \<le> a6" "0 \<le> a7"
      "0 \<le> a9" "0 \<le> a10"
  shows "\<bar>rnd (rnd (rnd (rnd (rnd (rnd (rnd (rnd (rnd (rnd (rnd
            (0 + a1) + a2) + a3) + a4) + a5) + a6) + a7) + w) + a9) + a10) * k)
          - (rnd (rnd (a1 + a2) + a3) + rnd (a4 + a5) + rnd (a6 + a7) + w + rnd (a9 + a10)) * k\<bar>
       \<le> (1 / 10 ^ 9) *
          ((\<bar>rnd (rnd (a1 + a2) + a3)\<bar> + \<bar>rnd (a4 + a5)\<bar> + \<bar>rnd (a6 + a7)\<bar> + \<bar>w\<bar> +
            \<bar>rnd (a9 + a10)\<bar>) * \<bar>k\<bar>)"
proof -
  have P: "9007199254740992 * rnd x - 9007199254740992 * x \<le> \<bar>x\<bar>" "0 \<le> 9007199254740992 * rnd x - 9007199254740992 * x + \<bar>x\<bar>" for x
    using P1 [of x] by (simp_all add: abs_if split: if_splits)
  define x1 where "x1 = 0 + a1"
  define s1 where "s1 = rnd x1"
  define g1 where "g1 = a1"
  define m1 where "m1 = a1"
  have b1: "9007199254740992 * s1 - 9007199254740992 * m1 \<le> 2 * g1" "0 \<le> 9007199254740992 * s1 - 9007199254740992 * m1 + 2 * g1"
    "m1 \<le> g1" "0 \<le> m1 + g1"
    using P [of x1] nn x1_def s1_def g1_def m1_def by linarith+
  define x2 where "x2 = s1 + a2"
  define s2 where "s2 = rnd x2"
  define g2 where "g2 = g1 + a2"
  define m2 where "m2 = m1 + a2"
  have b2: "9007199254740992 * s2 - 9007199254740992 * m2 \<le> 4 * g2" "0 \<le> 9007199254740992 * s2 - 9007199254740992 * m2 + 4 * g2"
    "m2 \<le> g2" "0 \<le> m2 + g2"
    using P [of x2] b1 nn x2_def s2_def g2_def m2_def by linarith+
  define x3 where "x3 = s2 + a3"
  define s3 where "s3 = rnd x3"
  define g3 where "g3 = g2 + a3"
  define m3 where "m3 = m2 + a3"
  have b3: "9007199254740992 * s3 - 9007199254740992 * m3 \<le> 6 * g3" "0 \<le> 9007199254740992 * s3 - 9007199254740992 * m3 + 6 * g3"
    "m3 \<le> g3" "0 \<le> m3 + g3"
    using P [of x3] b2 nn x3_def s3_def g3_def m3_def by linarith+
  define x4 where "x4 = s3 + a4"
  define s4 where "s4 = rnd x4"
  define g4 where "g4 = g3 + a4"
  define m4 where "m4 = m3 + a4"
  have b4: "9007199254740992 * s4 - 9007199254740992 * m4 \<le> 8 * g4" "0 \<le> 9007199254740992 * s4 - 9007199254740992 * m4 + 8 * g4"
    "m4 \<le> g4" "0 \<le> m4 + g4"
    using P [of x4] b3 nn x4_def s4_def g4_def m4_def by linarith+
  define x5 where "x5 = s4 + a5"
  define s5 where "s5 = rnd x5"
  define g5 where "g5 = g4 + a5"
  define m5 where "m5 = m4 + a5"
  have b5: "9007199254740992 * s5 - 9007199254740992 * m5 \<le> 10 * g5" "0 \<le> 9007199254740992 * s5 - 9007199254740992 * m5 + 10 * g5"
    "m5 \<le> g5" "0 \<le> m5 + g5"
    using P [of x5] b4 nn x5_def s5_def g5_def m5_def by linarith+
  define x6 where "x6 = s5 + a6"
  define s6 where "s6 = rnd x6"
  define g6 where "g6 = g5 + a6"
  define m6 where "m6 = m5 + a6"
  have b6: "9007199254740992 * s6 - 9007199254740992 * m6 \<le> 12 * g6" "0 \<le> 9007199254740992 * s6 - 9007199254740992 * m6 + 12 * g6"
    "m6 \<le> g6" "0 \<le> m6 + g6"
    using P [of x6] b5 nn x6_def s6_def g6_def m6_def by linarith+
  define x7 where "x7 = s6 + a7"
  define s7 where "s7 = rnd x7"
  define g7 where "g7 = g6 + a7"
  define m7 where "m7 = m6 + a7"
  have b7: "9007199254740992 * s7 - 9007199254740992 * m7 \<le> 14 * g7" "0 \<le> 9007199254740992 * s7 - 9007199254740992 * m7 + 14 * g7"
    "m7 \<le> g7" "0 \<le> m7 + g7"
    using P [of x7] b6 nn x7_def s7_def g7_def m7_def by linarith+
  define x8 where "x8 = s7 + w"
  define s8 where "s8 = rnd x8"
  define g8 where "g8 = g7 + \<bar>w\<bar>"
  define m8 where "m8 = m7 + w"
  have b8: "9007199254740992 * s8 - 9007199254740992 * m8 \<le> 16 * g8" "0 \<le> 9007199254740992 * s8 - 9007199254740992 * m8 + 16 * g8"
    "m8 \<le> g8" "0 \<le> m8 + g8"
    using P [of x8] b7 nn x8_def s8_def g8_def m8_def by linarith+
  define x9 where "x9 = s8 + a9"
  define s9 where "s9 = rnd x9"
  define g9 where "g9 = g8 + a9"
  define m9 where "m9 = m8 + a9"
  have b9: "9007199254740992 * s9 - 9007199254740992 * m9 \<le> 18 * g9" "0 \<le> 9007199254740992 * s9 - 9007199254740992 * m9 + 18 * g9"
    "m9 \<le> g9" "0 \<le> m9 + g9"
    using P [of x9] b8 nn x9_def s9_def g9_def m9_def by linarith+
  define x10 where "x10 = s9 + a10"
  define s10 where "s10 = rnd x10"
  define g10 where "g10 = g9 + a10"
  define m10 where "m10 = m9 + a10"
  have b10: "9007199254740992 * s10 - 9007199254740992 * m10 \<le> 20 * g10" "0 \<le> 9007199254740992 * s10 - 9007199254740992 * m10 + 20 * g10"
    "m10 \<le> g10" "0 \<le> m10 + g10"
    using P [of x10] b9 nn x10_def s10_def g10_def m10_def by linarith+
  define y1 where "y1 = a1 + a2"
  define t1 where "t1 = rnd y1"
  define y2 where "y2 = t1 + a3"
  define T where "T = rnd y2"
  define y3 where "y3 = a4 + a5"
  define E where "E = rnd y3"
  define y4 where "y4 = a6 + a7"
  define F where "F = rnd y4"
  define y5 where "y5 = a9 + a10"
  define S where "S = rnd y5"
  have bt1: "9007199254740992 * t1 - 9007199254740992 * y1 \<le> y1" "0 \<le> 9007199254740992 * t1 - 9007199254740992 * y1 + y1"
    using P [of y1] nn y1_def t1_def by linarith+
  have bT: "9007199254740992 * T - 9007199254740992 * y1 - 9007199254740992 * a3 \<le> 4 * y1 + 4 * a3"
    "0 \<le> 9007199254740992 * T - 9007199254740992 * y1 - 9007199254740992 * a3 + 4 * y1 + 4 * a3"
    using P [of y2] bt1 nn y1_def y2_def T_def by linarith+
  have bE: "9007199254740992 * E - 9007199254740992 * y3 \<le> y3" "0 \<le> 9007199254740992 * E - 9007199254740992 * y3 + y3"
    using P [of y3] nn y3_def E_def by linarith+
  have bF: "9007199254740992 * F - 9007199254740992 * y4 \<le> y4" "0 \<le> 9007199254740992 * F - 9007199254740992 * y4 + y4"
    using P [of y4] nn y4_def F_def by linarith+
  have bS: "9007199254740992 * S - 9007199254740992 * y5 \<le> y5" "0 \<le> 9007199254740992 * S - 9007199254740992 * y5 + y5"
    using P [of y5] nn y5_def S_def by linarith+
  define M where "M = T + E + F + \<bar>w\<bar> + S"
  define B where "B = T + E + F + w + S"
  have hT: "y1 + a3 \<le> 2 * T" using bT nn y1_def by linarith
  have hE: "y3 \<le> 2 * E" using bE nn y3_def by linarith
  have hF: "y4 \<le> 2 * F" using bF nn y4_def by linarith
  have hS: "y5 \<le> 2 * S" using bS nn y5_def by linarith
  have pos: "0 \<le> T" "0 \<le> E" "0 \<le> F" "0 \<le> S"
    using hT hE hF hS nn y1_def y3_def y4_def y5_def by linarith+
  have gm: "g10 = y1 + a3 + y3 + y4 + \<bar>w\<bar> + y5" "m10 = y1 + a3 + y3 + y4 + w + y5"
    unfolding g10_def g9_def g8_def g7_def g6_def g5_def g4_def g3_def g2_def g1_def
      m10_def m9_def m8_def m7_def m6_def m5_def m4_def m3_def m2_def m1_def
      y1_def y3_def y4_def y5_def by linarith+
  have c1: "g10 \<le> 2 * M" using hT hE hF hS gm M_def by linarith
  have G0: "0 \<le> g10" using gm nn y1_def y3_def y4_def y5_def by linarith
  have M0: "0 \<le> M" using pos M_def by linarith
  have c2: "9007199254740992 * s10 - 9007199254740992 * B \<le> 24 * g10" "0 \<le> 9007199254740992 * s10 - 9007199254740992 * B + 24 * g10"
    using b10 bT bE bF bS nn gm B_def y1_def y3_def y4_def y5_def by linarith+
  define e where "e = s10 - B"
  have c2': "9007199254740992 * \<bar>e\<bar> \<le> 48 * M"
    using c2 c1 e_def by linarith
  have c3: "\<bar>s10\<bar> \<le> 2 * M"
  proof -
    have "0 \<le> B + M" "B \<le> M" using pos B_def M_def by linarith+
    then show ?thesis using c2 c1 M0 by linarith
  qed
  define r where "r = rnd (s10 * k)"
  have d1: "9007199254740992 * \<bar>r - s10 * k\<bar> \<le> \<bar>s10\<bar> * \<bar>k\<bar>"
    using P1 [of "s10 * k"] unfolding r_def by (simp add: abs_mult)
  have d2: "\<bar>s10\<bar> * \<bar>k\<bar> \<le> 2 * (M * \<bar>k\<bar>)"
    using mult_right_mono [OF c3, of "\<bar>k\<bar>"] by simp
  have d3: "\<bar>s10 * k - B * k\<bar> = \<bar>e\<bar> * \<bar>k\<bar>"
    unfolding e_def by (simp add: abs_mult left_diff_distrib [symmetric])
  have d4: "9007199254740992 * (\<bar>e\<bar> * \<bar>k\<bar>) \<le> 48 * (M * \<bar>k\<bar>)"
    using mult_right_mono [OF c2', of "\<bar>k\<bar>"] by (simp add: mult.assoc)
  have MK: "0 \<le> M * \<bar>k\<bar>" using M0 by simp
  define x where "x = \<bar>r - s10 * k\<bar>"
  define y where "y = \<bar>e\<bar> * \<bar>k\<bar>"
  define z where "z = M * \<bar>k\<bar>"
  define q where "q = \<bar>r - B * k\<bar>"
  have "\<bar>r - B * k\<bar> \<le> \<bar>r - s10 * k\<bar> + \<bar>s10 * k - B * k\<bar>"
    using abs_triangle_ineq [of "r - s10 * k" "s10 * k - B * k"] by simp
  then have "q \<le> x + y" unfolding d3 x_def y_def q_def .
  moreover have "9007199254740992 * x \<le> 2 * z"
  proof -
    have "9007199254740992 * x \<le> \<bar>s10\<bar> * \<bar>k\<bar>" unfolding x_def by (rule d1)
    also have "\<dots> \<le> 2 * z" unfolding z_def by (rule d2)
    finally show ?thesis .
  qed
  moreover have "9007199254740992 * y \<le> 48 * z" unfolding y_def z_def by (rule d4)
  moreover have "0 \<le> z" unfolding z_def by (rule MK)
  ultimately have "1000000000 * q \<le> z" by linarith
  then have "\<bar>r - B * k\<bar> \<le> (1 / 10 ^ 9) * (M * \<bar>k\<bar>)" unfolding q_def z_def by simp
  moreover have "M = \<bar>T\<bar> + \<bar>E\<bar> + \<bar>F\<bar> + \<bar>w\<bar> + \<bar>S\<bar>" using pos unfolding M_def by simp
  ultimately have "\<bar>r - B * k\<bar>
      \<le> (1 / 10 ^ 9) * ((\<bar>T\<bar> + \<bar>E\<bar> + \<bar>F\<bar> + \<bar>w\<bar> + \<bar>S\<bar>) * \<bar>k\<bar>)"
    by simp
  then show ?thesis
    unfolding r_def s10_def x10_def s9_def x9_def s8_def x8_def s7_def x7_def s6_def x6_def
      s5_def x5_def s4_def x4_def s3_def x3_def s2_def x2_def s1_def x1_def
      B_def T_def y2_def t1_def y1_def E_def y3_def F_def y4_def S_def y5_def .
qed

lemma safeParseFloat_Num: "\<exists>v\<ge>0. safeParseFloat g elementId = Num v"
proof (cases "g elementId")
  case None
  then show ?thesis by (simp add: safeParseFloat_def)
next
  case (Some a)
  then show ?thesis by (cases a) (auto simp add: safeParseFloat_def)
qed

lemma roundedCalculation_near:
  fixes rnd :: "real \<Rightarrow> real"
  assumes P1: "\<And>x. \<bar>rnd x - x\<bar> \<le> \<bar>x\<bar> / 2 ^ 53"
    and P2: "\<And>x. x \<le> 1 \<Longrightarrow> rnd x \<le> 1"
    and groups:
      "transport f = Some \<lparr> car = Num c1, flightShort = Num c2, publicTransport = Num c3 \<rparr>"
      "energy f = Some \<lparr> electricity = Num c4, gas = Num c5 \<rparr>"
      "food f = Some \<lparr> meatMeal = Num c6, dairyServing = Num c7 \<rparr>"
      "waste f = Some \<lparr> wasteBag = Num c8, recyclingOffset = Num c9 \<rparr>"
      "shopping f = Some \<lparr> general = Num c10, electronics = Num c11 \<rparr>"
      "conv = Some cv" "kgToTonnes cv = Num k"
    and nn: "0 \<le> c1" "0 \<le> c2" "0 \<le> c3" "0 \<le> c4" "0 \<le> c5" "0 \<le> c6" "0 \<le> c7"
      "0 \<le> c10" "0 \<le> c11"
  shows "\<exists>t T E F W S.
      roundedCalculation rnd f conv form time =
        Inr \<lparr> co2e = Num t, category = ''mixed'', timestamp = time,
          breakdown = Some \<lparr> transportKg = Num T, energyKg = Num E, foodKg = Num F,
                              wasteKg = Num W, shoppingKg = Num S \<rparr> \<rparr> \<and>
      \<bar>t - (T + E + F + W + S) * rnd k\<bar>
        \<le> (1 / 10 ^ 9) * ((\<bar>T\<bar> + \<bar>E\<bar> + \<bar>F\<bar> + \<bar>W\<bar> + \<bar>S\<bar>) * \<bar>rnd k\<bar>)"
proof -
  have rn: "0 \<le> rnd x" if "0 \<le> x" for x
    using P1 [of x] that by (simp add: abs_if split: if_splits)
  let ?g = "\<lambda>elementId. map_option (round_js rnd) (form elementId)"
  have "\<forall>i. \<exists>v. 0 \<le> v \<and> safeParseFloat ?g i = Num v"
    using safeParseFloat_Num [of ?g] by blast
  then obtain sp where sp0: "\<And>i. 0 \<le> sp i" and sp: "\<And>i. safeParseFloat ?g i = Num (sp i)"
    by metis
  define p1 where "p1 = min 100 (max 0 (sp ''renewable-percent''))"
  define p2 where "p2 = min 100 (max 0 (sp ''local-food''))"
  define p3 where "p3 = min 100 (max 0 (sp ''recycling-percent''))"
  define a1 where "a1 = rnd (rnd (sp ''car-miles'' * rnd c1) * 12)"
  define a2 where "a2 = rnd (rnd (sp ''flights'' * 1000) * rnd c2)"
  define a3 where "a3 = rnd (rnd (sp ''public-transport'' * rnd c3) * 12)"
  define a4 where "a4 = rnd (rnd (rnd (sp ''electricity'' * rnd c4) * rnd (1 - rnd (p1 / 100))) * 12)"
  define a5 where "a5 = rnd (rnd (sp ''gas'' * rnd c5) * 12)"
  define a6 where "a6 = rnd (rnd (rnd (sp ''meat-meals'' * rnd c6) * 52) *
      max (rnd 0.8) (rnd (1 - rnd (rnd (p2 / 100) * rnd 0.2))))"
  define a7 where "a7 = rnd (rnd (sp ''dairy-products'' * rnd c7) * 52)"
  define we where "we = rnd (rnd (sp ''waste-bags'' * rnd c8) * 52)"
  define w where "w = rnd (we - rnd (rnd (we * rnd (p3 / 100)) * \<bar>rnd c9\<bar>))"
  define a9 where "a9 = rnd (rnd (sp ''shopping-spend'' * rnd c10) * 12)"
  define a10 where "a10 = rnd (sp ''electronics'' * rnd c11)"
  have eq: "roundedCalculation rnd f conv form time =
      Inr \<lparr> co2e = Num (rnd (rnd (rnd (rnd (rnd (rnd (rnd (rnd (rnd (rnd (rnd
            (0 + a1) + a2) + a3) + a4) + a5) + a6) + a7) + w) + a9) + a10) * rnd k)),
          category = ''mixed'', timestamp = time,
          breakdown = Some
            \<lparr> transportKg = Num (rnd (rnd (a1 + a2) + a3)), energyKg = Num (rnd (a4 + a5)),
              foodKg = Num (rnd (a6 + a7)), wasteKg = Num w,
              shoppingKg = Num (rnd (a9 + a10)) \<rparr> \<rparr>"
    unfolding a1_def a2_def a3_def a4_def a5_def a6_def a7_def w_def we_def a9_def a10_def
      p1_def p2_def p3_def
    by (simp add: roundedCalculation_def Let_def groups sp)
  have le1: "p1 / 100 \<le> 1" unfolding p1_def by simp
  have n: "0 \<le> a1" "0 \<le> a2" "0 \<le> a3" "0 \<le> a5" "0 \<le> a7" "0 \<le> a9" "0 \<le> a10"
    unfolding a1_def a2_def a3_def a5_def a7_def a9_def a10_def
    by (intro rn mult_nonneg_nonneg sp0 nn; simp)+
  have n4: "0 \<le> a4"
  proof -
    have "0 \<le> 1 - rnd (p1 / 100)" using P2 [OF le1] by simp
    then show ?thesis unfolding a4_def
      by (intro rn mult_nonneg_nonneg sp0 nn) simp_all
  qed
  have n6: "0 \<le> a6"
  proof -
    have "0 \<le> rnd 0.8" by (intro rn) simp
    then have "0 \<le> max (rnd 0.8) (rnd (1 - rnd (rnd (p2 / 100) * rnd 0.2)))"
      by (simp add: le_max_iff_disj)
    then show ?thesis unfolding a6_def
      by (intro rn mult_nonneg_nonneg sp0 nn) simp_all
  qed
  note J = rounded_sums_close [of rnd a1 a2 a3 a4 a5 a6 a7 a9 a10 w "rnd k",
      OF P1 n(1,2,3) n4 n(4) n6 n(5,6,7)]
  from eq J show ?thesis by blast
qed

lemma round_js_id: "round_js (\<lambda>x. x) a = a"
  by (cases a) simp_all

lemma roundedCalculation_exact:
  "roundedCalculation (\<lambda>x. x) factors conv form time = computeCalculation factors conv form time"
proof -
  have "(\<lambda>elementId. map_option (round_js (\<lambda>x. x)) (form elementId)) = form"
    by (rule ext) (simp add: round_js_id option.map_ident cong: option.map_cong)
  then show ?thesis
    by (simp add: roundedCalculation_def computeCalculation_def round_js_id Let_def
        cong: option.case_cong)
qed

lemma storedRounded_exact: "storedRounded (\<lambda>x. x) pg = stored (calculateFootprint pg)"
  by (simp add: storedRounded_def calculateFootprint_def roundedCalculation_exact Let_def
      split: option.splits sum.splits)

lemma stored64_cancellingPage:
  "stored64 cancellingPage =
     Some \<lparr> co2e = Num 0, category = ''mixed'', timestamp = 0,
       breakdown = Some
         \<lparr> transportKg = Num (6924284427082137 / 140737488355328), energyKg = Num 0,
           foodKg = Num 0, wasteKg = Num (- 104),
           shoppingKg = Num (3856207180935987 / 70368744177664) \<rparr> \<rparr>"
  by (simp add: stored64_def storedRounded_def cancellingPage_def blankPage_def getConfig_def fallbackConfig_def
      fallbackFactors_def roundedCalculation_def safeParseFloat_def Let_def
      fl64_def round53.simps rne_def)

section \<open>The most recent log entry\<close>

lemma array_sort_first_maximum:
  "logs \<noteq> [] \<Longrightarrow>
   \<exists>e rest pre post.
     array_sort (\<lambda>a b. logDate b - logDate a) logs = e # rest \<and> logs = pre @ e # post \<and>
     (\<forall>x\<in>set pre. logDate x < logDate e) \<and> (\<forall>x\<in>set post. logDate x \<le> logDate e)"
proof (induction logs)
  case Nil
  then show ?case by simp
next
  case (Cons a as)
  let ?cmp = "\<lambda>a b. logDate b - logDate a"
  show ?case
  proof (cases "as = []")
    case True
    have "[a] = [] @ a # []" by simp
    then show ?thesis using True by fastforce
  next
    case False
    from Cons.IH [OF False] obtain e rest pre post where
      s: "array_sort ?cmp as = e # rest" and d: "as = pre @ e # post"
      and lt: "\<forall>x\<in>set pre. logDate x < logDate e"
      and le: "\<forall>x\<in>set post. logDate x \<le> logDate e"
      by blast
    show ?thesis
    proof (cases "logDate e - logDate a \<le> 0")
      case True
      have "array_sort ?cmp (a # as) = a # e # rest" using s True by simp
      moreover have "a # as = [] @ a # as" by simp
      moreover have "\<forall>x\<in>set as. logDate x \<le> logDate a" using d lt le True by auto
      ultimately show ?thesis by (metis empty_iff list.set(1))
    next
      case False
      have "array_sort ?cmp (a # as) = e # insertSorted ?cmp a rest" using s False by simp
      moreover have "a # as = (a # pre) @ e # post" using d by simp
      moreover have "\<forall>x\<in>set (a # pre). logDate x < logDate e" using lt False by auto
      ultimately show ?thesis using le by blast
    qed
  qed
qed

section \<open>Properties\<close>

text \<open>
  C1, as the specification states it, fails in binary64. The total is accumulated term by
  term and the breakdown holds sums per category, so the two round differently. With 10
  car miles, 4 waste bags, 100 percent recycling, a shopping spend of 80 and 1 for
  electronics under the fallback factors, the stored total is 0 while the five stored
  values sum to \<open>-2\<^sup>-\<^sup>4\<^sup>7\<close> kg: the total is not within \<open>10\<^sup>-\<^sup>9\<close> of the sum times
  \<open>kgToTonnes\<close>, relative to that value.
\<close>

theorem total_not_within_tolerance:
  "stored64 cancellingPage =
     Some \<lparr> co2e = Num 0, category = ''mixed'', timestamp = 0,
       breakdown = Some
         \<lparr> transportKg = Num (6924284427082137 / 140737488355328), energyKg = Num 0,
           foodKg = Num 0, wasteKg = Num (- 104),
           shoppingKg = Num (3856207180935987 / 70368744177664) \<rparr> \<rparr> \<and>
   (6924284427082137 / 140737488355328 + 0 + 0 + (- 104) +
      3856207180935987 / 70368744177664) = (- (1 / 2 ^ 47) :: real) \<and>
   \<not> \<bar>0 - (6924284427082137 / 140737488355328 + 0 + 0 + (- 104) +
            3856207180935987 / 70368744177664) * fl64 0.001\<bar>
       \<le> (1 / 10 ^ 9) *
          \<bar>(6924284427082137 / 140737488355328 + 0 + 0 + (- 104) +
             3856207180935987 / 70368744177664) * fl64 0.001\<bar>"
proof -
  have k: "fl64 0.001 = 1152921504606847 / 1152921504606846976"
    by (simp add: fl64_def round53.simps rne_def)
  show ?thesis using k by (simp add: stored64_cancellingPage)
qed

text \<open>
  C1, amended. In binary64, when the factors and \<open>kgToTonnes\<close> are numbers and no factor
  other than those of waste is negative, the calculation stores a total and a breakdown,
  and the total is within \<open>10\<^sup>-\<^sup>9\<close> times the sum of the sizes of the five breakdown
  values times the size of \<open>kgToTonnes\<close> of the sum of the five values times
  \<open>kgToTonnes\<close>. The tolerance is relative to the sizes of the categories, not to their
  sum, which a negative waste value can cancel. (Here \<open>fl64 k\<close> is \<open>kgToTonnes\<close> as the
  binary64 value the code multiplies by, and overflow and underflow are left aside.)
\<close>

theorem total_near_breakdown:
  assumes "getConfig (CONFIG pg) (window_CONFIG pg) = Some cfg"
    and "emissionFactors cfg = Some f" and "conversions cfg = Some cv"
    and "transport f = Some \<lparr> car = Num c1, flightShort = Num c2, publicTransport = Num c3 \<rparr>"
    and "energy f = Some \<lparr> electricity = Num c4, gas = Num c5 \<rparr>"
    and "food f = Some \<lparr> meatMeal = Num c6, dairyServing = Num c7 \<rparr>"
    and "waste f = Some \<lparr> wasteBag = Num c8, recyclingOffset = Num c9 \<rparr>"
    and "shopping f = Some \<lparr> general = Num c10, electronics = Num c11 \<rparr>"
    and "kgToTonnes cv = Num k"
    and "0 \<le> c1" "0 \<le> c2" "0 \<le> c3" "0 \<le> c4" "0 \<le> c5" "0 \<le> c6" "0 \<le> c7"
      "0 \<le> c10" "0 \<le> c11"
  shows "\<exists>t T E F W S.
      stored64 pg =
        Some \<lparr> co2e = Num t, category = ''mixed'', timestamp = now pg,
          breakdown = Some \<lparr> transportKg = Num T, energyKg = Num E, foodKg = Num F,
                              wasteKg = Num W, shoppingKg = Num S \<rparr> \<rparr> \<and>
      \<bar>t - (T + E + F + W + S) * fl64 k\<bar>
        \<le> (1 / 10 ^ 9) * ((\<bar>T\<bar> + \<bar>E\<bar> + \<bar>F\<bar> + \<bar>W\<bar> + \<bar>S\<bar>) * \<bar>fl64 k\<bar>)"
proof -
  from roundedCalculation_near [of fl64, OF fl64_err fl64_le_one assms(4-8) assms(3) assms(9-18),
      of "elements pg" "now pg"]
  obtain t T E F W S where
    r: "roundedCalculation fl64 f (conversions cfg) (elements pg) (now pg) =
        Inr \<lparr> co2e = Num t, category = ''mixed'', timestamp = now pg,
          breakdown = Some \<lparr> transportKg = Num T, energyKg = Num E, foodKg = Num F,
                              wasteKg = Num W, shoppingKg = Num S \<rparr> \<rparr>"
    and b: "\<bar>t - (T + E + F + W + S) * fl64 k\<bar>
        \<le> (1 / 10 ^ 9) * ((\<bar>T\<bar> + \<bar>E\<bar> + \<bar>F\<bar> + \<bar>W\<bar> + \<bar>S\<bar>) * \<bar>fl64 k\<bar>)"
    by blast
  have "stored64 pg =
        Some \<lparr> co2e = Num t, category = ''mixed'', timestamp = now pg,
          breakdown = Some \<lparr> transportKg = Num T, energyKg = Num E, foodKg = Num F,
                              wasteKg = Num W, shoppingKg = Num S \<rparr> \<rparr>"
    by (simp add: stored64_def storedRounded_def assms(1,2) r)
  with b show ?thesis by blast
qed

theorem total_near_breakdown_witness:
  "getConfig (CONFIG cancellingPage) (window_CONFIG cancellingPage) = Some fallbackConfig \<and>
   emissionFactors fallbackConfig = Some fallbackFactors \<and>
   conversions fallbackConfig = Some \<lparr> kgToTonnes = Num 0.001, treesPerTonne = Num 20 \<rparr> \<and>
   transport fallbackFactors =
     Some \<lparr> car = Num 0.41, flightShort = Num 0.158, publicTransport = Num 0.053 \<rparr> \<and>
   energy fallbackFactors = Some \<lparr> electricity = Num 0.233, gas = Num 5.3 \<rparr> \<and>
   food fallbackFactors = Some \<lparr> meatMeal = Num 7.19, dairyServing = Num 2.5 \<rparr> \<and>
   waste fallbackFactors = Some \<lparr> wasteBag = Num 2.5, recyclingOffset = Num (- 1.2) \<rparr> \<and>
   shopping fallbackFactors = Some \<lparr> general = Num 0.005, electronics = Num 50 \<rparr> \<and>
   (\<exists>t T E F W S.
      stored64 cancellingPage =
        Some \<lparr> co2e = Num t, category = ''mixed'', timestamp = now cancellingPage,
          breakdown = Some \<lparr> transportKg = Num T, energyKg = Num E, foodKg = Num F,
                              wasteKg = Num W, shoppingKg = Num S \<rparr> \<rparr> \<and>
      \<bar>t - (T + E + F + W + S) * fl64 0.001\<bar>
        \<le> (1 / 10 ^ 9) * ((\<bar>T\<bar> + \<bar>E\<bar> + \<bar>F\<bar> + \<bar>W\<bar> + \<bar>S\<bar>) * \<bar>fl64 0.001\<bar>))"
proof -
  have 1: "getConfig (CONFIG cancellingPage) (window_CONFIG cancellingPage) = Some fallbackConfig"
    by (simp add: cancellingPage_def blankPage_config)
  have 2: "emissionFactors fallbackConfig = Some fallbackFactors"
    by (simp add: fallbackConfig_def)
  have 3: "conversions fallbackConfig = Some \<lparr> kgToTonnes = Num 0.001, treesPerTonne = Num 20 \<rparr>"
    by (simp add: fallbackConfig_def)
  have 4: "transport fallbackFactors =
      Some \<lparr> car = Num 0.41, flightShort = Num 0.158, publicTransport = Num 0.053 \<rparr>"
    by (simp add: fallbackFactors_def)
  have 5: "energy fallbackFactors = Some \<lparr> electricity = Num 0.233, gas = Num 5.3 \<rparr>"
    by (simp add: fallbackFactors_def)
  have 6: "food fallbackFactors = Some \<lparr> meatMeal = Num 7.19, dairyServing = Num 2.5 \<rparr>"
    by (simp add: fallbackFactors_def)
  have 7: "waste fallbackFactors = Some \<lparr> wasteBag = Num 2.5, recyclingOffset = Num (- 1.2) \<rparr>"
    by (simp add: fallbackFactors_def)
  have 8: "shopping fallbackFactors = Some \<lparr> general = Num 0.005, electronics = Num 50 \<rparr>"
    by (simp add: fallbackFactors_def)
  have 9: "kgToTonnes \<lparr> kgToTonnes = Num 0.001, treesPerTonne = Num 20 \<rparr> = Num 0.001"
    by simp
  note t = total_near_breakdown [OF 1 2 3 4 5 6 7 8 9]
  have "\<exists>t T E F W S.
      stored64 cancellingPage =
        Some \<lparr> co2e = Num t, category = ''mixed'', timestamp = now cancellingPage,
          breakdown = Some \<lparr> transportKg = Num T, energyKg = Num E, foodKg = Num F,
                              wasteKg = Num W, shoppingKg = Num S \<rparr> \<rparr> \<and>
      \<bar>t - (T + E + F + W + S) * fl64 0.001\<bar>
        \<le> (1 / 10 ^ 9) * ((\<bar>T\<bar> + \<bar>E\<bar> + \<bar>F\<bar> + \<bar>W\<bar> + \<bar>S\<bar>) * \<bar>fl64 0.001\<bar>)"
    by (rule t) simp_all
  with 1 2 3 4 5 6 7 8 show ?thesis by (intro conjI)
qed

text \<open>
  C3. \<open>getPreviousCalculation\<close> gives null for an empty log. For a log that is not empty
  it gives an entry whose date is the greatest, and the first such entry in the order of
  the log: every entry before it is strictly older, every entry after it is not newer.
  The date of an entry is its timestamp when it has one (\<open>logDate\<close>). In particular a
  single entry is returned, and of an entry at time 1 followed by one at time 2 the second.
\<close>

theorem mostRecent_first_maximum:
  "getPreviousCalculation [] = None \<and>
   (logs \<noteq> [] \<longrightarrow>
      (\<exists>pre e post. logs = pre @ e # post \<and> getPreviousCalculation logs = Some e \<and>
         (\<forall>x\<in>set pre. logDate x < logDate e) \<and>
         (\<forall>x\<in>set post. logDate x \<le> logDate e))) \<and>
   (\<forall>t. log_timestamp a = Some t \<longrightarrow> logDate a = t) \<and>
   getPreviousCalculation [a] = Some a \<and>
   (log_timestamp a = Some 1 \<and> log_timestamp b = Some 2 \<longrightarrow>
      getPreviousCalculation [a, b] = Some b)"
proof -
  have "getPreviousCalculation [] = None"
    by (simp add: getPreviousCalculation_def)
  moreover have "\<exists>pre e post. logs = pre @ e # post \<and> getPreviousCalculation logs = Some e \<and>
      (\<forall>x\<in>set pre. logDate x < logDate e) \<and> (\<forall>x\<in>set post. logDate x \<le> logDate e)"
    if "logs \<noteq> []"
  proof -
    from array_sort_first_maximum [OF that] obtain e rest pre post where
      "array_sort (\<lambda>a b. logDate b - logDate a) logs = e # rest" "logs = pre @ e # post"
      "\<forall>x\<in>set pre. logDate x < logDate e" "\<forall>x\<in>set post. logDate x \<le> logDate e"
      by blast
    moreover from this(1) that have "getPreviousCalculation logs = Some e"
      by (simp add: getPreviousCalculation_def)
    ultimately show ?thesis by blast
  qed
  moreover have "\<forall>t. log_timestamp a = Some t \<longrightarrow> logDate a = t"
    by (simp add: logDate_def)
  moreover have "getPreviousCalculation [a] = Some a"
    by (simp add: getPreviousCalculation_def)
  moreover have "getPreviousCalculation [a, b] = Some b"
    if "log_timestamp a = Some 1 \<and> log_timestamp b = Some 2"
    using that by (simp add: getPreviousCalculation_def logDate_def)
  ultimately show ?thesis by blast
qed

theorem mostRecent_first_maximum_witness:
  "[\<lparr> log_id = 1, log_co2e = Some (Num 2.5), log_timestamp = Some 1, log_date = None \<rparr>,
    \<lparr> log_id = 2, log_co2e = Some (Num 1.8), log_timestamp = Some 2, log_date = None \<rparr>] \<noteq> [] \<and>
   getPreviousCalculation
     [\<lparr> log_id = 1, log_co2e = Some (Num 2.5), log_timestamp = Some 1, log_date = None \<rparr>,
      \<lparr> log_id = 2, log_co2e = Some (Num 1.8), log_timestamp = Some 2, log_date = None \<rparr>]
     = Some \<lparr> log_id = 2, log_co2e = Some (Num 1.8), log_timestamp = Some 2, log_date = None \<rparr>"
  using mostRecent_first_maximum
    [of "[\<lparr> log_id = 1, log_co2e = Some (Num 2.5), log_timestamp = Some 1, log_date = None \<rparr>,
          \<lparr> log_id = 2, log_co2e = Some (Num 1.8), log_timestamp = Some 2, log_date = None \<rparr>]"
        "\<lparr> log_id = 1, log_co2e = Some (Num 2.5), log_timestamp = Some 1, log_date = None \<rparr>"
        "\<lparr> log_id = 2, log_co2e = Some (Num 1.8), log_timestamp = Some 2, log_date = None \<rparr>"]
  by simp

text \<open>
  C4. For every page and every field, a negative number in the field gives the same
  outcome of \<open>calculateFootprint\<close> (return value, stored calculation, what is shown) as
  0 in that field; and for each of the three percent fields a number above 100 gives the
  same outcome as 100.
\<close>

theorem clamping_idempotence:
  "(v < 0 \<longrightarrow>
      calculateFootprint (pg\<lparr>elements := (elements pg)(fieldId \<mapsto> Num v)\<rparr>) =
      calculateFootprint (pg\<lparr>elements := (elements pg)(fieldId \<mapsto> Num 0)\<rparr>)) \<and>
   (fieldId \<in> {''renewable-percent'', ''local-food'', ''recycling-percent''} \<and> 100 < v \<longrightarrow>
      calculateFootprint (pg\<lparr>elements := (elements pg)(fieldId \<mapsto> Num v)\<rparr>) =
      calculateFootprint (pg\<lparr>elements := (elements pg)(fieldId \<mapsto> Num 100)\<rparr>))"
proof (intro conjI impI)
  assume "v < 0"
  then show "calculateFootprint (pg\<lparr>elements := (elements pg)(fieldId \<mapsto> Num v)\<rparr>) =
      calculateFootprint (pg\<lparr>elements := (elements pg)(fieldId \<mapsto> Num 0)\<rparr>)"
    by (intro calculateFootprint_elements_cong computeCalculation_negative)
next
  assume a: "fieldId \<in> {''renewable-percent'', ''local-food'', ''recycling-percent''} \<and> 100 < v"
  then consider "fieldId = ''renewable-percent''" | "fieldId = ''local-food''"
    | "fieldId = ''recycling-percent''"
    by blast
  then show "calculateFootprint (pg\<lparr>elements := (elements pg)(fieldId \<mapsto> Num v)\<rparr>) =
      calculateFootprint (pg\<lparr>elements := (elements pg)(fieldId \<mapsto> Num 100)\<rparr>)"
  proof cases
    case 1
    with a show ?thesis
      by (intro calculateFootprint_elements_cong) (simp add: computeCalculation_renewable)
  next
    case 2
    with a show ?thesis
      by (intro calculateFootprint_elements_cong) (simp add: computeCalculation_local)
  next
    case 3
    with a show ?thesis
      by (intro calculateFootprint_elements_cong) (simp add: computeCalculation_recycling)
  qed
qed

theorem clamping_idempotence_witness:
  "(-5::real) < 0 \<and>
   calculateFootprint (blankPage\<lparr>elements := (elements blankPage)(''car-miles'' \<mapsto> Num (-5))\<rparr>) =
   calculateFootprint (blankPage\<lparr>elements := (elements blankPage)(''car-miles'' \<mapsto> Num 0)\<rparr>) \<and>
   ''recycling-percent'' \<in> {''renewable-percent'', ''local-food'', ''recycling-percent''} \<and>
   (100::real) < 250 \<and>
   calculateFootprint (blankPage\<lparr>elements := (elements blankPage)(''recycling-percent'' \<mapsto> Num 250)\<rparr>) =
   calculateFootprint (blankPage\<lparr>elements := (elements blankPage)(''recycling-percent'' \<mapsto> Num 100)\<rparr>)"
  using clamping_idempotence [of "-5" blankPage "''car-miles''"]
    clamping_idempotence [of 250 blankPage "''recycling-percent''"]
  by simp

text \<open>
  C5. When the calculation succeeds, the waste value of the breakdown is the emitted waste
  (bags times the factor times 52) minus the recycling offset (emitted waste times the
  clamped recycling percent over 100 times the magnitude of the offset factor), with no
  floor at 0: one bag a week, 100 percent recycling, a bag factor of 2.5 and an offset
  factor of -1.2 give -26 kg.
\<close>

theorem waste_not_floored:
  assumes "returned (calculateFootprint pg)"
    and "getConfig (CONFIG pg) (window_CONFIG pg) = Some cfg"
    and "emissionFactors cfg = Some f" and "waste f = Some wasteF"
  shows "\<exists>calc b. stored (calculateFootprint pg) = Some calc \<and> breakdown calc = Some b \<and>
     wasteKg b =
       safeParseFloat (elements pg) ''waste-bags'' * wasteBag wasteF * Num 52 -
       safeParseFloat (elements pg) ''waste-bags'' * wasteBag wasteF * Num 52 *
         (Math_min (Num 100) (Math_max (Num 0) (safeParseFloat (elements pg) ''recycling-percent''))
            / Num 100) *
         Math_abs (recyclingOffset wasteF) \<and>
     (elements pg ''waste-bags'' = Some (Num 1) \<and> elements pg ''recycling-percent'' = Some (Num 100) \<and>
      wasteBag wasteF = Num 2.5 \<and> recyclingOffset wasteF = Num (- 1.2)
      \<longrightarrow> wasteKg b = Num (- 26))"
proof -
  from assms(1) obtain cfg' f' calc where
    r: "getConfig (CONFIG pg) (window_CONFIG pg) = Some cfg'" "emissionFactors cfg' = Some f'"
      "computeCalculation f' (conversions cfg') (elements pg) (now pg) = Inr calc"
    by (rule returned_cases)
  with assms have eq: "cfg' = cfg" "f' = f" by simp_all
  from computeCalculation_waste [OF r(3) [unfolded eq] assms(4)] obtain b where
    b: "breakdown calc = Some b"
      "wasteKg b =
       safeParseFloat (elements pg) ''waste-bags'' * wasteBag wasteF * Num 52 -
       safeParseFloat (elements pg) ''waste-bags'' * wasteBag wasteF * Num 52 *
         (Math_min (Num 100) (Math_max (Num 0) (safeParseFloat (elements pg) ''recycling-percent''))
            / Num 100) *
         Math_abs (recyclingOffset wasteF)"
    by blast
  have s: "stored (calculateFootprint pg) = Some calc"
    using calculateFootprint_Inr [OF r] by simp
  have "wasteKg b = Num (- 26)"
    if "elements pg ''waste-bags'' = Some (Num 1) \<and> elements pg ''recycling-percent'' = Some (Num 100) \<and>
      wasteBag wasteF = Num 2.5 \<and> recyclingOffset wasteF = Num (- 1.2)"
    using that b(2) by (simp add: safeParseFloat_def)
  with s b show ?thesis by blast
qed

theorem waste_not_floored_witness:
  "returned (calculateFootprint wastePage) \<and>
   getConfig (CONFIG wastePage) (window_CONFIG wastePage) = Some fallbackConfig \<and>
   emissionFactors fallbackConfig = Some fallbackFactors \<and>
   waste fallbackFactors = Some \<lparr> wasteBag = Num 2.5, recyclingOffset = Num (- 1.2) \<rparr> \<and>
   elements wastePage ''waste-bags'' = Some (Num 1) \<and>
   elements wastePage ''recycling-percent'' = Some (Num 100) \<and>
   (\<exists>calc b. stored (calculateFootprint wastePage) = Some calc \<and> breakdown calc = Some b \<and>
      wasteKg b = Num (- 26))"
proof -
  have 1: "returned (calculateFootprint wastePage)" by (simp add: wastePage_outcome)
  have 3: "emissionFactors fallbackConfig = Some fallbackFactors" by (simp add: fallbackConfig_def)
  have 4: "waste fallbackFactors = Some \<lparr> wasteBag = Num 2.5, recyclingOffset = Num (- 1.2) \<rparr>"
    by (simp add: fallbackFactors_def)
  have 5: "elements wastePage ''waste-bags'' = Some (Num 1)"
    "elements wastePage ''recycling-percent'' = Some (Num 100)"
    by (simp_all add: wastePage_def)
  from waste_not_floored [OF 1 wastePage_config 3 4] 5
  have "\<exists>calc b. stored (calculateFootprint wastePage) = Some calc \<and> breakdown calc = Some b \<and>
      wasteKg b = Num (- 26)"
    by auto
  then show ?thesis using 1 wastePage_config 3 4 5 by blast
qed

text \<open>
  C8. With the fallback configuration (car 0.41, electricity 0.233, kgToTonnes 0.001) and
  a form with 100 car miles, 300 units of electricity, 50 percent renewable and 0
  elsewhere, the calculation succeeds with 492 kg for transport (all of it the car),
  419.4 kg for energy (all of it electricity), 0 for food, waste and shopping, and a
  total of 0.9114 tonnes.
\<close>

theorem default_factors_example:
  assumes "getConfig (CONFIG pg) (window_CONFIG pg) = Some fallbackConfig"
    and "elements pg =
      (\<lambda>elementId. Some (Num 0))
        (''car-miles'' \<mapsto> Num 100, ''electricity'' \<mapsto> Num 300, ''renewable-percent'' \<mapsto> Num 50)"
  shows "returned (calculateFootprint pg) \<and>
    stored (calculateFootprint pg) =
      Some \<lparr> co2e = Num 0.9114, category = ''mixed'', timestamp = now pg,
        breakdown = Some \<lparr> transportKg = Num 492, energyKg = Num 419.4, foodKg = Num 0,
                            wasteKg = Num 0, shoppingKg = Num 0 \<rparr> \<rparr> \<and>
    (\<exists>f tr en cv. emissionFactors fallbackConfig = Some f \<and> transport f = Some tr \<and>
       energy f = Some en \<and> conversions fallbackConfig = Some cv \<and>
       car tr = Num 0.41 \<and> electricity en = Num 0.233 \<and> kgToTonnes cv = Num 0.001 \<and>
       Num 100 * car tr * Num 12 = Num 492 \<and>
       Num 300 * electricity en * (Num 1 - Num 50 / Num 100) * Num 12 = Num 419.4)"
proof -
  have "computeCalculation fallbackFactors (conversions fallbackConfig) (elements pg) (now pg) =
     Inr \<lparr> co2e = Num 0.9114, category = ''mixed'', timestamp = now pg,
        breakdown = Some \<lparr> transportKg = Num 492, energyKg = Num 419.4, foodKg = Num 0,
                            wasteKg = Num 0, shoppingKg = Num 0 \<rparr> \<rparr>"
    by (simp add: assms(2) computeCalculation_def fallbackConfig_def fallbackFactors_def
        safeParseFloat_def Let_def)
  from calculateFootprint_Inr [OF assms(1) _ this]
  have "returned (calculateFootprint pg) \<and>
    stored (calculateFootprint pg) =
      Some \<lparr> co2e = Num 0.9114, category = ''mixed'', timestamp = now pg,
        breakdown = Some \<lparr> transportKg = Num 492, energyKg = Num 419.4, foodKg = Num 0,
                            wasteKg = Num 0, shoppingKg = Num 0 \<rparr> \<rparr>"
    by (simp add: fallbackConfig_def)
  moreover have "\<exists>f tr en cv. emissionFactors fallbackConfig = Some f \<and> transport f = Some tr \<and>
       energy f = Some en \<and> conversions fallbackConfig = Some cv \<and>
       car tr = Num 0.41 \<and> electricity en = Num 0.233 \<and> kgToTonnes cv = Num 0.001 \<and>
       Num 100 * car tr * Num 12 = Num 492 \<and>
       Num 300 * electricity en * (Num 1 - Num 50 / Num 100) * Num 12 = Num 419.4"
    by (simp add: fallbackConfig_def fallbackFactors_def)
  ultimately show ?thesis by blast
qed

theorem default_factors_example_witness:
  "getConfig (CONFIG carPage) (window_CONFIG carPage) = Some fallbackConfig \<and>
   elements carPage =
      (\<lambda>elementId. Some (Num 0))
        (''car-miles'' \<mapsto> Num 100, ''electricity'' \<mapsto> Num 300, ''renewable-percent'' \<mapsto> Num 50) \<and>
   stored (calculateFootprint carPage) =
      Some \<lparr> co2e = Num 0.9114, category = ''mixed'', timestamp = 0,
        breakdown = Some \<lparr> transportKg = Num 492, energyKg = Num 419.4, foodKg = Num 0,
                            wasteKg = Num 0, shoppingKg = Num 0 \<rparr> \<rparr>"
proof -
  have 1: "getConfig (CONFIG carPage) (window_CONFIG carPage) = Some fallbackConfig"
    by (simp add: carPage_def blankPage_config)
  have 2: "elements carPage =
      (\<lambda>elementId. Some (Num 0))
        (''car-miles'' \<mapsto> Num 100, ''electricity'' \<mapsto> Num 300, ''renewable-percent'' \<mapsto> Num 50)"
    by (simp add: carPage_def)
  have 3: "now carPage = 0" by (simp add: carPage_def blankPage_def)
  show ?thesis using 1 2 default_factors_example [OF 1 2] by (simp add: 3)
qed

text \<open>
  C7. With a structurally complete configuration, \<open>calculateFootprint\<close> succeeds for
  every form: the \<^verbatim>\<open>try\<close> block throws nothing, a calculation with a breakdown is
  stored, every field that is absent, not a number or negative is read as 0, and the
  outcome is the one for the form with those fields replaced by 0.
\<close>

theorem never_raises:
  assumes "getConfig (CONFIG pg) (window_CONFIG pg) = Some cfg" and "structurallyComplete cfg"
  shows "returned (calculateFootprint pg) \<and>
    (\<exists>calc b. stored (calculateFootprint pg) = Some calc \<and> breakdown calc = Some b) \<and>
    (\<forall>f e. emissionFactors cfg = Some f \<longrightarrow>
       computeCalculation f (conversions cfg) (elements pg) (now pg) \<noteq> Inl e) \<and>
    (\<forall>elementId.
       elements pg elementId = None \<or> elements pg elementId = Some NaN \<or>
       (\<exists>v<0. elements pg elementId = Some (Num v))
       \<longrightarrow> safeParseFloat (elements pg) elementId = Num 0) \<and>
    calculateFootprint pg = calculateFootprint (pg\<lparr>elements := sanitized (elements pg)\<rparr>)"
proof -
  from assms(2) obtain f tr en fo wa sh cv where g: "emissionFactors cfg = Some f"
    "transport f = Some tr" "energy f = Some en" "food f = Some fo" "waste f = Some wa"
    "shopping f = Some sh" "conversions cfg = Some cv"
    by (rule complete_obtain)
  from computeCalculation_complete [OF g(2-6), of cv "elements pg" "now pg"]
  obtain calc b where
    c: "computeCalculation f (Some cv) (elements pg) (now pg) = Inr calc" "breakdown calc = Some b"
    by blast
  have r: "calculateFootprint pg =
      \<lparr> returned = True, stored = Some calc,
        effects = [displayCalculationResult (resultElements pg) (resultDescription pg)
                     (co2e calc) (getPreviousCalculation (carbonLogs pg))] \<rparr>"
    using calculateFootprint_Inr [OF assms(1) g(1)] c(1) g(7) by simp
  have "calculateFootprint (pg\<lparr>elements := elements pg\<rparr>) =
      calculateFootprint (pg\<lparr>elements := sanitized (elements pg)\<rparr>)"
    by (intro calculateFootprint_elements_cong) (simp add: computeCalculation_sanitized)
  then have s: "calculateFootprint pg =
      calculateFootprint (pg\<lparr>elements := sanitized (elements pg)\<rparr>)"
    by simp
  have n: "\<forall>f e. emissionFactors cfg = Some f \<longrightarrow>
       computeCalculation f (conversions cfg) (elements pg) (now pg) \<noteq> Inl e"
    using g(1,7) c(1) by auto
  have m: "\<forall>elementId.
       elements pg elementId = None \<or> elements pg elementId = Some NaN \<or>
       (\<exists>v<0. elements pg elementId = Some (Num v))
       \<longrightarrow> safeParseFloat (elements pg) elementId = Num 0"
    using safeParseFloat_malformed by blast
  have "returned (calculateFootprint pg)" by (simp add: r)
  moreover have "\<exists>calc b. stored (calculateFootprint pg) = Some calc \<and> breakdown calc = Some b"
    using c(2) by (simp add: r)
  ultimately show ?thesis using n m s by (intro conjI)
qed

theorem never_raises_witness:
  "getConfig (CONFIG malformedPage) (window_CONFIG malformedPage) = Some fallbackConfig \<and>
   structurallyComplete fallbackConfig \<and>
   returned (calculateFootprint malformedPage) \<and>
   elements malformedPage ''flights'' = None \<and>
   safeParseFloat (elements malformedPage) ''flights'' = Num 0 \<and>
   calculateFootprint malformedPage =
     calculateFootprint (malformedPage\<lparr>elements := sanitized (elements malformedPage)\<rparr>)"
proof -
  have 1: "getConfig (CONFIG malformedPage) (window_CONFIG malformedPage) = Some fallbackConfig"
    by (simp add: malformedPage_def blankPage_config)
  have 2: "elements malformedPage ''flights'' = None"
    by (simp add: malformedPage_def)
  note t = never_raises [OF 1 fallbackConfig_complete]
  from t have 3: "returned (calculateFootprint malformedPage)" by (rule conjunct1)
  from t have m: "\<forall>elementId.
       elements malformedPage elementId = None \<or> elements malformedPage elementId = Some NaN \<or>
       (\<exists>v<0. elements malformedPage elementId = Some (Num v))
       \<longrightarrow> safeParseFloat (elements malformedPage) elementId = Num 0"
    by (elim conjE)
  have 4: "safeParseFloat (elements malformedPage) ''flights'' = Num 0"
    by (rule m [rule_format, OF disjI1, OF 2])
  from t have 5: "calculateFootprint malformedPage =
     calculateFootprint (malformedPage\<lparr>elements := sanitized (elements malformedPage)\<rparr>)"
    by (elim conjE)
  show ?thesis using 1 fallbackConfig_complete 3 2 4 5 by (intro conjI)
qed

text \<open>
  C6, as the specification states it, fails: with the table of factors present and the
  conversion constants missing, or one group of factors missing, the \<^verbatim>\<open>catch\<close>
  branch stores a calculation of 0 tonnes and shows 0.
\<close>

theorem missing_group_zero_result:
  "calculateFootprint noConversionsPage =
     \<lparr> returned = False,
       stored = Some \<lparr> co2e = Num 0, category = ''mixed'', timestamp = 0, breakdown = None \<rparr>,
       effects = [ResultShown (Num 0) (Some EnterValues)] \<rparr> \<and>
   calculateFootprint noWastePage =
     \<lparr> returned = False,
       stored = Some \<lparr> co2e = Num 0, category = ''mixed'', timestamp = 0, breakdown = None \<rparr>,
       effects = [ResultShown (Num 0) (Some EnterValues)] \<rparr>"
  by (simp add: noConversionsPage_def noWastePage_def example_defs displayCalculationResult_def)

text \<open>
  C6, amended. When the configuration that \<open>getConfig\<close> resolves is null or has no table
  of factors, \<open>calculateFootprint\<close> alerts, returns false and leaves the stored
  calculation as it was: nothing is computed. When the table is there and one of its
  groups or the conversion constants are missing, it returns false, stores a calculation
  of 0 tonnes without breakdown and displays 0. When no configuration is loaded at all,
  \<open>getConfig\<close> supplies the fallback and the calculation succeeds.
\<close>

theorem configuration_failure:
  "(getConfig (CONFIG pg) (window_CONFIG pg) = None \<or>
    (\<exists>cfg. getConfig (CONFIG pg) (window_CONFIG pg) = Some cfg \<and> emissionFactors cfg = None)
    \<longrightarrow> calculateFootprint pg =
          \<lparr> returned = False, stored = currentCalculation pg,
            effects = [AlertConfigNotLoaded] \<rparr>) \<and>
   (getConfig (CONFIG pg) (window_CONFIG pg) = Some cfg \<and> emissionFactors cfg = Some f \<and>
    (transport f = None \<or> energy f = None \<or> food f = None \<or> waste f = None \<or>
     shopping f = None \<or> conversions cfg = None)
    \<longrightarrow> calculateFootprint pg =
          \<lparr> returned = False,
            stored = Some \<lparr> co2e = Num 0, category = ''mixed'', timestamp = now pg,
                            breakdown = None \<rparr>,
            effects = [displayCalculationResult (resultElements pg) (resultDescription pg)
                         (Num 0) None] \<rparr>) \<and>
   (CONFIG pg = Undefined \<and> window_CONFIG pg = None
    \<longrightarrow> getConfig (CONFIG pg) (window_CONFIG pg) = Some fallbackConfig \<and>
        returned (calculateFootprint pg))"
proof (intro conjI impI)
  assume "getConfig (CONFIG pg) (window_CONFIG pg) = None \<or>
    (\<exists>cfg. getConfig (CONFIG pg) (window_CONFIG pg) = Some cfg \<and> emissionFactors cfg = None)"
  then show "calculateFootprint pg =
      \<lparr> returned = False, stored = currentCalculation pg, effects = [AlertConfigNotLoaded] \<rparr>"
    by (rule calculateFootprint_notLoaded)
next
  assume a: "getConfig (CONFIG pg) (window_CONFIG pg) = Some cfg \<and> emissionFactors cfg = Some f \<and>
    (transport f = None \<or> energy f = None \<or> food f = None \<or> waste f = None \<or>
     shopping f = None \<or> conversions cfg = None)"
  then have "computeCalculation f (conversions cfg) (elements pg) (now pg) = Inl TypeError"
    by (intro computeCalculation_missing) simp
  with a show "calculateFootprint pg =
      \<lparr> returned = False,
        stored = Some \<lparr> co2e = Num 0, category = ''mixed'', timestamp = now pg,
                        breakdown = None \<rparr>,
        effects = [displayCalculationResult (resultElements pg) (resultDescription pg)
                     (Num 0) None] \<rparr>"
    by (intro calculateFootprint_Inl) simp_all
next
  assume a: "CONFIG pg = Undefined \<and> window_CONFIG pg = None"
  then show "getConfig (CONFIG pg) (window_CONFIG pg) = Some fallbackConfig"
    by (simp add: getConfig_def)
next
  assume a: "CONFIG pg = Undefined \<and> window_CONFIG pg = None"
  then have 1: "getConfig (CONFIG pg) (window_CONFIG pg) = Some fallbackConfig"
    by (simp add: getConfig_def)
  from fallbackConfig_complete obtain f tr en fo wa sh cv where
    g: "emissionFactors fallbackConfig = Some f"
    "transport f = Some tr" "energy f = Some en" "food f = Some fo" "waste f = Some wa"
    "shopping f = Some sh" "conversions fallbackConfig = Some cv"
    by (rule complete_obtain)
  from computeCalculation_complete [OF g(2-6), of cv "elements pg" "now pg"]
  obtain calc where "computeCalculation f (Some cv) (elements pg) (now pg) = Inr calc"
    by blast
  with calculateFootprint_Inr [OF 1 g(1)] g(7) show "returned (calculateFootprint pg)"
    by simp
qed

theorem configuration_failure_witness:
  "getConfig (CONFIG nullConfigPage) (window_CONFIG nullConfigPage) = None \<and>
   calculateFootprint nullConfigPage =
     \<lparr> returned = False, stored = None, effects = [AlertConfigNotLoaded] \<rparr> \<and>
   getConfig (CONFIG noConversionsPage) (window_CONFIG noConversionsPage)
     = Some \<lparr> emissionFactors = Some fallbackFactors, conversions = None \<rparr> \<and>
   calculateFootprint noConversionsPage =
     \<lparr> returned = False,
       stored = Some \<lparr> co2e = Num 0, category = ''mixed'', timestamp = 0, breakdown = None \<rparr>,
       effects = [displayCalculationResult True True (Num 0) None] \<rparr> \<and>
   CONFIG blankPage = Undefined \<and> window_CONFIG blankPage = None \<and>
   returned (calculateFootprint blankPage)"
proof -
  have 1: "getConfig (CONFIG nullConfigPage) (window_CONFIG nullConfigPage) = None"
    by (simp add: nullConfigPage_def blankPage_def getConfig_def)
  have 2: "getConfig (CONFIG noConversionsPage) (window_CONFIG noConversionsPage)
     = Some \<lparr> emissionFactors = Some fallbackFactors, conversions = None \<rparr>"
    by (simp add: noConversionsPage_def blankPage_def getConfig_def)
  have 3: "CONFIG blankPage = Undefined \<and> window_CONFIG blankPage = None"
    by (simp add: blankPage_def)
  have 4: "currentCalculation nullConfigPage = None" "now noConversionsPage = 0"
    "resultElements noConversionsPage" "resultDescription noConversionsPage"
    by (simp_all add: nullConfigPage_def noConversionsPage_def blankPage_def)
  show ?thesis
    using 1 2 3 configuration_failure [of nullConfigPage]
      configuration_failure [of noConversionsPage
        "\<lparr> emissionFactors = Some fallbackFactors, conversions = None \<rparr>" fallbackFactors]
      configuration_failure [of blankPage]
    by (simp add: 4)
qed

text \<open>
  C2, as the specification states it, fails. Against a previous entry whose footprint is
  0 the code computes neither a difference of 5 nor a percent change of 0: it reports no
  comparison. Nor is anything compared against a previous footprint of 4 when the total
  is 0 or negative, or when the page has no description element.
\<close>

theorem zero_previous_not_compared:
  "previousComparison (Num 5) (Some previous0) = None \<and>
   previousComparison (Num 5) (Some previous0) \<noteq> Some (Num (5 - 0), Num 0) \<and>
   displayCalculationResult True True (Num 5) (Some previous0) =
     ResultShown (Num 5) (Some (Rated CloseToAverage NoComparison)) \<and>
   displayCalculationResult True True (Num 0) (Some previous4) =
     ResultShown (Num 0) (Some EnterValues) \<and>
   displayCalculationResult True True (Num (- 3)) (Some previous4) =
     ResultShown (Num 0) (Some EnterValues) \<and>
   displayCalculationResult True False (Num 5) (Some previous4) = ResultShown (Num 5) None"
  by (simp add: previousComparison_def previous0_def previous4_def displayCalculationResult_def
      describeResult_def)

text \<open>
  C2, amended, of \<open>displayCalculationResult\<close> on a page with its result elements. With
  the description element, a total above 0 and a previous footprint that is a number
  other than 0, the difference is the total minus the previous footprint and the percent
  change is the difference over the previous footprint times 100 when the previous
  footprint is positive and 0 otherwise; they are reported (as a reduction or an increase)
  when the difference exceeds 0.01 in size, and a match is reported otherwise. With no
  previous entry, or a previous footprint that is absent, 0 or \<open>NaN\<close>, no comparison
  is reported. Nothing is compared either when the total is 0, negative or \<open>NaN\<close>
  (the prompt to enter values is shown), when there is no description element, or when
  the result elements are missing (the total goes to an alert). A total of 5 against a
  previous footprint of 4 gives a difference of 1 and a percent change of 25.
\<close>

theorem comparison_with_previous:
  "(0 < t \<and> log_co2e p = Some (Num c) \<and> c \<noteq> 0 \<longrightarrow>
      displayCalculationResult True True (Num t) (Some p) =
        ResultShown (Num t)
          (Some (Rated
             (if t < 4 then BelowAverage else if t < 8 then CloseToAverage else AboveAverage)
             (if 0.01 < \<bar>t - c\<bar> then
                (if t - c < 0
                 then Less (Num \<bar>t - c\<bar>) (Num \<bar>if 0 < c then (t - c) / c * 100 else 0\<bar>)
                 else More (Num (t - c)) (Num (if 0 < c then (t - c) / c * 100 else 0)))
              else Matches)))) \<and>
   (0 < t \<and>
    (previous = None \<or>
     (\<exists>q. previous = Some q \<and>
        (log_co2e q = None \<or> log_co2e q = Some (Num 0) \<or> log_co2e q = Some NaN))) \<longrightarrow>
      displayCalculationResult True True (Num t) previous =
        ResultShown (Num t)
          (Some (Rated
             (if t < 4 then BelowAverage else if t < 8 then CloseToAverage else AboveAverage)
             NoComparison))) \<and>
   (tonnes = NaN \<or> (\<exists>z\<le>0. tonnes = Num z) \<longrightarrow>
      displayCalculationResult True True tonnes previous = ResultShown (Num 0) (Some EnterValues)) \<and>
   displayCalculationResult True False tonnes previous =
     ResultShown (if isNaN tonnes \<or> js_lt tonnes (Num 0) then Num 0 else tonnes) None \<and>
   displayCalculationResult False descriptionElem tonnes previous = AlertFootprint tonnes \<and>
   (log_co2e p = Some (Num 4) \<longrightarrow>
      displayCalculationResult True True (Num 5) (Some p) =
        ResultShown (Num 5) (Some (Rated CloseToAverage (More (Num 1) (Num 25)))))"
proof (intro conjI impI)
  assume "0 < t \<and> log_co2e p = Some (Num c) \<and> c \<noteq> 0"
  then show "displayCalculationResult True True (Num t) (Some p) =
        ResultShown (Num t)
          (Some (Rated
             (if t < 4 then BelowAverage else if t < 8 then CloseToAverage else AboveAverage)
             (if 0.01 < \<bar>t - c\<bar> then
                (if t - c < 0
                 then Less (Num \<bar>t - c\<bar>) (Num \<bar>if 0 < c then (t - c) / c * 100 else 0\<bar>)
                 else More (Num (t - c)) (Num (if 0 < c then (t - c) / c * 100 else 0)))
              else Matches)))"
    by (simp add: displayCalculationResult_def describeResult_def previousComparison_def
        js_or_def js_gt_def Let_def)
next
  assume a: "0 < t \<and>
    (previous = None \<or>
     (\<exists>q. previous = Some q \<and>
        (log_co2e q = None \<or> log_co2e q = Some (Num 0) \<or> log_co2e q = Some NaN)))"
  then have "previousComparison (Num t) previous = None"
    by (auto simp add: previousComparison_def)
  with a show "displayCalculationResult True True (Num t) previous =
        ResultShown (Num t)
          (Some (Rated
             (if t < 4 then BelowAverage else if t < 8 then CloseToAverage else AboveAverage)
             NoComparison))"
    by (simp add: displayCalculationResult_def describeResult_def)
next
  assume "tonnes = NaN \<or> (\<exists>z\<le>0. tonnes = Num z)"
  then show "displayCalculationResult True True tonnes previous =
      ResultShown (Num 0) (Some EnterValues)"
    by (auto simp add: displayCalculationResult_def)
next
  show "displayCalculationResult True False tonnes previous =
     ResultShown (if isNaN tonnes \<or> js_lt tonnes (Num 0) then Num 0 else tonnes) None"
    by (simp add: displayCalculationResult_def)
next
  show "displayCalculationResult False descriptionElem tonnes previous = AlertFootprint tonnes"
    by (simp add: displayCalculationResult_def)
next
  assume "log_co2e p = Some (Num 4)"
  then show "displayCalculationResult True True (Num 5) (Some p) =
        ResultShown (Num 5) (Some (Rated CloseToAverage (More (Num 1) (Num 25))))"
    by (simp add: displayCalculationResult_def describeResult_def previousComparison_def
        js_or_def js_gt_def Let_def)
qed

theorem comparison_with_previous_witness:
  "(0::real) < 5 \<and> log_co2e previous4 = Some (Num 4) \<and> (4::real) \<noteq> 0 \<and>
   displayCalculationResult True True (Num 5) (Some previous4) =
     ResultShown (Num 5) (Some (Rated CloseToAverage (More (Num 1) (Num 25)))) \<and>
   log_co2e previous0 = Some (Num 0) \<and>
   displayCalculationResult True True (Num 5) (Some previous0) =
     ResultShown (Num 5) (Some (Rated CloseToAverage NoComparison)) \<and>
   (- 3::real) \<le> 0 \<and>
   displayCalculationResult True True (Num (- 3)) (Some previous4) =
     ResultShown (Num 0) (Some EnterValues)"
proof -
  have 1: "log_co2e previous4 = Some (Num 4)" "log_co2e previous0 = Some (Num 0)"
    by (simp_all add: previous4_def previous0_def)
  note t1 = comparison_with_previous [of 5 previous4 4 "Some previous0" "Num (- 3)" True]
  note t2 = comparison_with_previous [of 5 previous4 4 "Some previous0" "Num (- 3)" True,
      THEN conjunct2, THEN conjunct1]
  note t3 = comparison_with_previous [of 5 previous4 4 "Some previous4" "Num (- 3)" True,
      THEN conjunct2, THEN conjunct2, THEN conjunct1]
  from t1 1 have a: "displayCalculationResult True True (Num 5) (Some previous4) =
     ResultShown (Num 5) (Some (Rated CloseToAverage (More (Num 1) (Num 25))))"
    by simp
  from t2 1 have b: "displayCalculationResult True True (Num 5) (Some previous0) =
     ResultShown (Num 5) (Some (Rated CloseToAverage NoComparison))"
    by simp
  from t3 have c: "displayCalculationResult True True (Num (- 3)) (Some previous4) =
     ResultShown (Num 0) (Some EnterValues)"
    by simp
  show ?thesis using 1 a b c by simp
qed

text \<open>
  C9. A previous entry whose footprint is 0 or absent is treated as no previous entry:
  no difference or percent change is computed, what is displayed is what is displayed
  without a previous entry, and the notes of a saved calculation report no change. So
  with such an entry the most recent one, \<open>calculateFootprint\<close> and
  \<open>saveCalculation\<close> behave as on an empty log.
\<close>

theorem zero_previous_as_null:
  assumes "log_co2e p = Some (Num 0) \<or> log_co2e p = None"
  shows "previousComparison displayValue (Some p) = previousComparison displayValue None \<and>
    displayCalculationResult resultElems descriptionElem tonnes (Some p) =
      displayCalculationResult resultElems descriptionElem tonnes None \<and>
    composeNotes current (Some p) = composeNotes current None \<and>
    composeNotes current (Some p) = (current, NoChange) \<and>
    (getPreviousCalculation (carbonLogs pg) = Some p \<longrightarrow>
       calculateFootprint pg = calculateFootprint (pg\<lparr>carbonLogs := []\<rparr>) \<and>
       saveCalculation pg = saveCalculation (pg\<lparr>carbonLogs := []\<rparr>))"
proof -
  have 1: "previousComparison displayValue (Some p) = previousComparison displayValue None"
    for displayValue
    using assms by (auto simp add: previousComparison_def)
  have 2: "displayCalculationResult resultElems descriptionElem tonnes (Some p) =
      displayCalculationResult resultElems descriptionElem tonnes None"
    for resultElems descriptionElem tonnes
    by (simp add: displayCalculationResult_def describeResult_def 1)
  have 3: "composeNotes current (Some p) = composeNotes current None" for current
    using assms by (auto simp add: composeNotes_def)
  have 4: "composeNotes current (Some p) = (current, NoChange)"
    using assms by (auto simp add: composeNotes_def)
  have 5: "calculateFootprint pg = calculateFootprint (pg\<lparr>carbonLogs := []\<rparr>) \<and>
       saveCalculation pg = saveCalculation (pg\<lparr>carbonLogs := []\<rparr>)"
    if "getPreviousCalculation (carbonLogs pg) = Some p"
  proof -
    have n: "getPreviousCalculation [] = None" by (simp add: getPreviousCalculation_def)
    show ?thesis
      by (simp add: calculateFootprint_def saveCalculation_def Let_def that n 2 3
          cong: option.case_cong sum.case_cong)
  qed
  show ?thesis
  proof (intro conjI impI)
    assume "getPreviousCalculation (carbonLogs pg) = Some p"
    then show "calculateFootprint pg = calculateFootprint (pg\<lparr>carbonLogs := []\<rparr>)"
      by (rule 5 [THEN conjunct1])
  next
    assume "getPreviousCalculation (carbonLogs pg) = Some p"
    then show "saveCalculation pg = saveCalculation (pg\<lparr>carbonLogs := []\<rparr>)"
      by (rule 5 [THEN conjunct2])
  qed (rule 1 2 3 4)+
qed

theorem zero_previous_as_null_witness:
  "(log_co2e previous0 = Some (Num 0) \<or> log_co2e previous0 = None) \<and>
   displayCalculationResult True True (Num 5) (Some previous0) =
     ResultShown (Num 5) (Some (Rated CloseToAverage NoComparison)) \<and>
   composeNotes (Num 5) (Some previous0) = (Num 5, NoChange) \<and>
   getPreviousCalculation (carbonLogs zeroLogPage) = Some previous0 \<and>
   calculateFootprint zeroLogPage = calculateFootprint (zeroLogPage\<lparr>carbonLogs := []\<rparr>)"
proof -
  have 1: "log_co2e previous0 = Some (Num 0) \<or> log_co2e previous0 = None"
    by (simp add: previous0_def)
  have 2: "getPreviousCalculation (carbonLogs zeroLogPage) = Some previous0"
    by (simp add: zeroLogPage_def getPreviousCalculation_def)
  have 3: "displayCalculationResult True True (Num 5) None =
     ResultShown (Num 5) (Some (Rated CloseToAverage NoComparison))"
    by (simp add: displayCalculationResult_def describeResult_def previousComparison_def)
  note t = zero_previous_as_null [OF 1, of "Num 5" True True "Num 5" "Num 5" zeroLogPage]
  from t 3 have 4: "displayCalculationResult True True (Num 5) (Some previous0) =
     ResultShown (Num 5) (Some (Rated CloseToAverage NoComparison))"
    by simp
  from t have 5: "composeNotes (Num 5) (Some previous0) = (Num 5, NoChange)"
    by (elim conjE)
  from t 2 have 6: "calculateFootprint zeroLogPage = calculateFootprint (zeroLogPage\<lparr>carbonLogs := []\<rparr>)"
    by (elim conjE) simp
  show ?thesis using 1 4 5 2 6 by (intro conjI)
qed

text \<open>
  C10. When the calculation succeeds on a page that has its result elements, the value
  displayed is the total with a negative or \<open>NaN\<close> total replaced by 0, while the
  stored calculation keeps the total as computed, and so does the record that
  \<open>saveCalculation\<close> then hands to the log store. For some inputs the two differ: one
  waste bag a week with 100 percent recycling displays 0 and stores -0.026 tonnes.
\<close>

theorem displayed_floored_stored_raw:
  assumes "returned (calculateFootprint pg)" and "resultElements pg"
  shows "(\<exists>calc d. stored (calculateFootprint pg) = Some calc \<and>
       effects (calculateFootprint pg) =
         [ResultShown (if isNaN (co2e calc) \<or> js_lt (co2e calc) (Num 0) then Num 0 else co2e calc) d] \<and>
       (\<exists>ld. saveCalculation (pg\<lparr>currentCalculation := stored (calculateFootprint pg)\<rparr>) = Some ld \<and>
          ld_co2e ld = co2e calc \<and> ld_value ld = co2e calc)) \<and>
    (\<exists>pg'. returned (calculateFootprint pg') \<and> resultElements pg' \<and>
       (\<exists>calc shown d. stored (calculateFootprint pg') = Some calc \<and>
          effects (calculateFootprint pg') = [ResultShown shown d] \<and>
          shown = Num 0 \<and> co2e calc = Num (- 0.026) \<and> shown \<noteq> co2e calc))"
proof
  from assms(1) obtain cfg f calc where
    r: "getConfig (CONFIG pg) (window_CONFIG pg) = Some cfg" "emissionFactors cfg = Some f"
      "computeCalculation f (conversions cfg) (elements pg) (now pg) = Inr calc"
    by (rule returned_cases)
  note o = calculateFootprint_Inr [OF r]
  have "stored (calculateFootprint pg) = Some calc" by (simp add: o)
  moreover have "\<exists>d. effects (calculateFootprint pg) =
      [ResultShown (if isNaN (co2e calc) \<or> js_lt (co2e calc) (Num 0) then Num 0 else co2e calc) d]"
    using assms(2) by (simp add: o displayCalculationResult_def Let_def)
  moreover have "\<exists>ld. saveCalculation (pg\<lparr>currentCalculation := stored (calculateFootprint pg)\<rparr>) = Some ld \<and>
          ld_co2e ld = co2e calc \<and> ld_value ld = co2e calc"
    by (simp add: o saveCalculation_def Let_def)
  ultimately show "\<exists>calc d. stored (calculateFootprint pg) = Some calc \<and>
       effects (calculateFootprint pg) =
         [ResultShown (if isNaN (co2e calc) \<or> js_lt (co2e calc) (Num 0) then Num 0 else co2e calc) d] \<and>
       (\<exists>ld. saveCalculation (pg\<lparr>currentCalculation := stored (calculateFootprint pg)\<rparr>) = Some ld \<and>
          ld_co2e ld = co2e calc \<and> ld_value ld = co2e calc)"
    by blast
next
  have "returned (calculateFootprint wastePage) \<and> resultElements wastePage \<and>
       (\<exists>calc shown d. stored (calculateFootprint wastePage) = Some calc \<and>
          effects (calculateFootprint wastePage) = [ResultShown shown d] \<and>
          shown = Num 0 \<and> co2e calc = Num (- 0.026) \<and> shown \<noteq> co2e calc)"
    by (simp add: wastePage_outcome) (simp add: wastePage_def blankPage_def)
  then show "\<exists>pg'. returned (calculateFootprint pg') \<and> resultElements pg' \<and>
       (\<exists>calc shown d. stored (calculateFootprint pg') = Some calc \<and>
          effects (calculateFootprint pg') = [ResultShown shown d] \<and>
          shown = Num 0 \<and> co2e calc = Num (- 0.026) \<and> shown \<noteq> co2e calc)"
    by (rule exI)
qed

theorem displayed_floored_stored_raw_witness:
  "returned (calculateFootprint wastePage) \<and> resultElements wastePage \<and>
   (\<exists>calc d. stored (calculateFootprint wastePage) = Some calc \<and>
      co2e calc = Num (- 0.026) \<and>
      effects (calculateFootprint wastePage) = [ResultShown (Num 0) d] \<and>
      (\<exists>ld. saveCalculation (wastePage\<lparr>currentCalculation := stored (calculateFootprint wastePage)\<rparr>)
             = Some ld \<and> ld_co2e ld = Num (- 0.026)))"
proof -
  have 1: "returned (calculateFootprint wastePage)" by (simp add: wastePage_outcome)
  have 2: "resultElements wastePage" by (simp add: wastePage_def blankPage_def)
  from displayed_floored_stored_raw [OF 1 2] obtain calc d ld where
    c: "stored (calculateFootprint wastePage) = Some calc"
      "effects (calculateFootprint wastePage) =
         [ResultShown (if isNaN (co2e calc) \<or> js_lt (co2e calc) (Num 0) then Num 0 else co2e calc) d]"
      "saveCalculation (wastePage\<lparr>currentCalculation := stored (calculateFootprint wastePage)\<rparr>) = Some ld"
      "ld_co2e ld = co2e calc"
    by blast
  from c(1) have v: "co2e calc = Num (- 0.026)" by (auto simp add: wastePage_outcome)
  from c(2) v have "effects (calculateFootprint wastePage) = [ResultShown (Num 0) d]" by simp
  with c v 1 2 show ?thesis by auto
qed

end
